theory Spec2Isabelle
  imports Complex_Main "HOL-Library.Sublist"
begin

section \<open>ContentCraft: the video-generation pipeline\<close>

text \<open>
  A shallow embedding of the server side of the pipeline: the MediTag segmenter
  (\<^verbatim>\<open>server/lib/meditagEngine.ts\<close>), the compliance checker
  (\<^verbatim>\<open>server/lib/complianceChecker.ts\<close>), the script generator
  (\<^verbatim>\<open>server/lib/openai.ts\<close>), the two video providers
  (\<^verbatim>\<open>server/lib/heygenApi.ts\<close>, \<^verbatim>\<open>server/lib/veoApi.ts\<close>) and the
  video service (\<^verbatim>\<open>server/services/videoService.ts\<close>).

  Conventions of the embedding.
  \<^item> A JavaScript string is a \<^typ>\<open>string\<close>; its characters are taken to be ASCII, so
    \<^verbatim>\<open>toLowerCase\<close> maps \<^verbatim>\<open>A\<close>..\<^verbatim>\<open>Z\<close> to \<^verbatim>\<open>a\<close>..\<^verbatim>\<open>z\<close> and
    leaves every other character alone, and white space is the ASCII white space.
  \<^item> A JavaScript number is \<^verbatim>\<open>NaN\<close> or a rational: the rounding of IEEE doubles
    and the infinities are left out. Every comparison with \<^verbatim>\<open>NaN\<close> is false.
  \<^item> A \<^verbatim>\<open>throw\<close> is the \<open>Inl\<close> of a sum; a \<^verbatim>\<open>try/catch\<close> is a case
    distinction on it.
  \<^item> Everything outside the process (the language model, the video providers, the
    environment variables) is a parameter of the function that calls it.
\<close>

subsection \<open>Strings\<close>

definition toLowerChar :: "char \<Rightarrow> char" where
  "toLowerChar c =
     (if (65::nat) \<le> of_char c \<and> of_char c \<le> (90::nat)
      then char_of (of_char c + (32::nat)) else c)"

definition toLowerCase :: "string \<Rightarrow> string" where
  "toLowerCase s = map toLowerChar s"

text \<open>\<^verbatim>\<open>s.startsWith(t)\<close> and \<^verbatim>\<open>s.includes(t)\<close>.\<close>

fun startsWith :: "string \<Rightarrow> string \<Rightarrow> bool" where
  "startsWith s [] = True"
| "startsWith [] (d # t) = False"
| "startsWith (c # s) (d # t) = (c = d \<and> startsWith s t)"

fun str_includes :: "string \<Rightarrow> string \<Rightarrow> bool" where
  "str_includes [] t = (t = [])"
| "str_includes (c # s) t = (startsWith (c # s) t \<or> str_includes s t)"

subsection \<open>Numbers\<close>

datatype number = NaN | Num rat

fun num_gt :: "number \<Rightarrow> number \<Rightarrow> bool" where
  "num_gt (Num a) (Num b) = (a > b)"
| "num_gt _ _ = False"

fun num_ge :: "number \<Rightarrow> number \<Rightarrow> bool" where
  "num_ge (Num a) (Num b) = (a \<ge> b)"
| "num_ge _ _ = False"

fun num_lt :: "number \<Rightarrow> number \<Rightarrow> bool" where
  "num_lt (Num a) (Num b) = (a < b)"
| "num_lt _ _ = False"

fun num_le :: "number \<Rightarrow> number \<Rightarrow> bool" where
  "num_le (Num a) (Num b) = (a \<le> b)"
| "num_le _ _ = False"

subsection \<open>Errors\<close>

text \<open>
  The exceptions of the pipeline. \<open>UploadNotFound\<close> is
  \<^verbatim>\<open>Error(`Upload with ID ${uploadId} not found`)\<close>, \<open>ScriptGenerationError\<close> is
  \<^verbatim>\<open>Error("Failed to generate script. Please try again later.")\<close>,
  \<open>ComplianceCheckError\<close> is
  \<^verbatim>\<open>Error("Failed to check compliance. Please try again later.")\<close>, \<open>TypeError\<close> is
  the runtime's error on reading a property of \<^verbatim>\<open>null\<close> or \<^verbatim>\<open>undefined\<close> or on
  calling what is not a function, and \<open>Error m\<close> is any other \<^verbatim>\<open>Error\<close> with
  message \<open>m\<close>.
\<close>

datatype error =
    UploadNotFound nat
  | ScriptGenerationError
  | ComplianceCheckError
  | TypeError
  | Error string

subsection \<open>Compliance checker\<close>

datatype compliance_status = Passed | Review | Failed

text \<open>The verdict of \<^verbatim>\<open>checkCompliance\<close>, and the \<^verbatim>\<open>details\<close> of a result.\<close>

record compliance_details =
  d_passed :: bool
  d_score :: number
  d_issues :: "string list option"
  d_recommendations :: "string list option"

record ComplianceResult =
  passed :: bool
  status :: compliance_status
  details :: compliance_details

definition evidenceTerms :: "string list" where
  "evidenceTerms =
     [''evidence-based'', ''clinical trial'', ''study shows'', ''research indicates'',
      ''data suggest'', ''demonstrated efficacy'', ''proven'', ''clinically validated'',
      ''statistically significant'', ''peer-reviewed'', ''meta-analysis'',
      ''randomized controlled trial'', ''rct'']"

definition containsEvidenceBasedLanguage :: "string \<Rightarrow> bool" where
  "containsEvidenceBasedLanguage script =
     (let lowerScript = toLowerCase script
      in list_ex (\<lambda>term. str_includes lowerScript term) evidenceTerms)"

definition nonCompliantTerms :: "string list" where
  "nonCompliantTerms =
     [''best in class'', ''superior to'', ''better than'', ''most effective'',
      ''guaranteed'', ''miracle'', ''cure'', ''no side effects'', ''risk free'',
      ''immediate results'', ''complete relief'', ''revolutionary'', ''breakthrough'']"

definition simpleComplianceCheck :: "string \<Rightarrow> bool" where
  "simpleComplianceCheck script =
     (let lowerScript = toLowerCase script;
          hasEvidenceBasedLanguage = containsEvidenceBasedLanguage script;
          hasNonCompliantLanguage =
            list_ex (\<lambda>term. str_includes lowerScript term) nonCompliantTerms
      in hasEvidenceBasedLanguage \<and> \<not> hasNonCompliantLanguage)"

text \<open>
  \<^verbatim>\<open>evaluateCompliance\<close>. Its first argument is \<^verbatim>\<open>checkCompliance\<close>, the call to
  the language model: \<open>Inl\<close> when the call throws, \<open>Inr\<close> with the verdict otherwise.
\<close>

definition evaluateCompliance ::
  "(string \<Rightarrow> error + compliance_details) \<Rightarrow> string \<Rightarrow> ComplianceResult" where
  "evaluateCompliance checkCompliance script =
     (case checkCompliance script of
        Inr complianceDetails \<Rightarrow>
          (let status0 =
                 (if d_passed complianceDetails then Passed
                  else if num_ge (d_score complianceDetails) (Num 60) then Review
                  else Failed);
               evidenceBasedCheck = containsEvidenceBasedLanguage script;
               status1 = (if evidenceBasedCheck \<and> status0 = Failed then Review else status0)
           in \<lparr>passed = (status1 = Passed), status = status1, details = complianceDetails\<rparr>)
      | Inl e \<Rightarrow>
          (let fallbackResult = simpleComplianceCheck script
           in \<lparr>passed = fallbackResult,
               status = (if fallbackResult then Passed else Review),
               details =
                 \<lparr>d_passed = fallbackResult,
                  d_score = (if fallbackResult then Num 80 else Num 50),
                  d_issues =
                    (if fallbackResult then Some []
                     else Some [''Compliance check error - limited validation performed'']),
                  d_recommendations =
                    (if fallbackResult then Some []
                     else Some [''Include explicit evidence-based language''])\<rparr>\<rparr>))"

subsection \<open>MediTag segmenter: parsing\<close>

text \<open>The character classes \<^verbatim>\<open>\s\<close> and \<^verbatim>\<open>\d\<close> of the regular expressions.\<close>

definition isSpace :: "char \<Rightarrow> bool" where
  "isSpace c = (of_char c \<in> {9, 10, 11, 12, 13, 32 :: nat})"

definition isDigit :: "char \<Rightarrow> bool" where
  "isDigit c = ((48::nat) \<le> of_char c \<and> of_char c \<le> (57::nat))"

definition isDigitOrDot :: "char \<Rightarrow> bool" where
  "isDigitOrDot c = (isDigit c \<or> c = CHR ''.'')"

definition notCommaNewline :: "char \<Rightarrow> bool" where
  "notCommaNewline c = (c \<noteq> CHR '','' \<and> c \<noteq> CHR 0x0A)"

text \<open>
  A pattern is a function from the text at the current position to the captured group,
  \<open>None\<close> when it does not match there. \<open>literalCI\<close> is a literal under the
  \<^verbatim>\<open>i\<close> flag followed by the rest of the pattern; \<open>spacesThen\<close> is the greedy
  \<^verbatim>\<open>\s*\<close>, which takes one more white space first and gives it back when the rest
  of the pattern fails; \<open>captureRun\<close> is a final group \<^verbatim>\<open>([...]+)\<close>;
  \<open>regexMatch\<close> is \<^verbatim>\<open>text.match(re)\<close> without the \<^verbatim>\<open>g\<close> flag: the match at
  the leftmost position that has one.
\<close>

fun literalCI :: "string \<Rightarrow> (string \<Rightarrow> string option) \<Rightarrow> string \<Rightarrow> string option" where
  "literalCI [] k s = k s"
| "literalCI (l # lit) k [] = None"
| "literalCI (l # lit) k (c # s) =
     (if toLowerChar c = toLowerChar l then literalCI lit k s else None)"

fun spacesThen :: "(string \<Rightarrow> string option) \<Rightarrow> string \<Rightarrow> string option" where
  "spacesThen k [] = k []"
| "spacesThen k (c # s) =
     (if isSpace c
      then (case spacesThen k s of Some g \<Rightarrow> Some g | None \<Rightarrow> k (c # s))
      else k (c # s))"

definition captureRun :: "(char \<Rightarrow> bool) \<Rightarrow> string \<Rightarrow> string option" where
  "captureRun P s = (let g = takeWhile P s in if g = [] then None else Some g)"

fun regexMatch :: "(string \<Rightarrow> string option) \<Rightarrow> string \<Rightarrow> string option" where
  "regexMatch re [] = re []"
| "regexMatch re (c # s) =
     (case re (c # s) of Some g \<Rightarrow> Some g | None \<Rightarrow> regexMatch re s)"

text \<open>\<^verbatim>\<open>/specialty:\s*([^,\n]+)/i\<close> and its three siblings.\<close>

definition specialtyRegex :: "string \<Rightarrow> string option" where
  "specialtyRegex = literalCI ''specialty:'' (spacesThen (captureRun notCommaNewline))"

definition prescriptionRateRegex :: "string \<Rightarrow> string option" where
  "prescriptionRateRegex =
     literalCI ''prescription_rate:'' (spacesThen (captureRun isDigitOrDot))"

definition practiceSizeRegex :: "string \<Rightarrow> string option" where
  "practiceSizeRegex = literalCI ''practice_size:'' (spacesThen (captureRun notCommaNewline))"

definition yearsExperienceRegex :: "string \<Rightarrow> string option" where
  "yearsExperienceRegex = literalCI ''years_experience:'' (spacesThen (captureRun isDigit))"

definition trim :: "string \<Rightarrow> string" where
  "trim s = rev (dropWhile isSpace (rev (dropWhile isSpace s)))"

text \<open>
  \<^verbatim>\<open>parseFloat\<close> and \<^verbatim>\<open>parseInt\<close> on what the patterns capture: digits and dots,
  no sign, no exponent, no leading white space. \<^verbatim>\<open>parseFloat\<close> reads the longest
  prefix that is a decimal literal (digits, then possibly a dot and digits) and is
  \<^verbatim>\<open>NaN\<close> when that prefix has no digit.
\<close>

definition digitsValue :: "string \<Rightarrow> nat" where
  "digitsValue ds = foldl (\<lambda>a c. 10 * a + (of_char c - 48)) 0 ds"

definition parseFloat :: "string \<Rightarrow> number" where
  "parseFloat s =
     (let ip = takeWhile isDigit s;
          r = dropWhile isDigit s;
          fp = (case r of [] \<Rightarrow> [] | c # r' \<Rightarrow> if c = CHR ''.'' then takeWhile isDigit r' else [])
      in if ip = [] \<and> fp = [] then NaN
         else Num (of_nat (digitsValue ip) + of_nat (digitsValue fp) / 10 ^ length fp))"

definition parseInt :: "string \<Rightarrow> number" where
  "parseInt s =
     (let ds = takeWhile isDigit s in if ds = [] then NaN else Num (of_nat (digitsValue ds)))"

record HCPData =
  specialty :: "string option"
  prescription_rate :: "number option"
  practice_size :: "string option"
  years_experience :: "number option"

definition parseHCPData :: "string \<Rightarrow> HCPData" where
  "parseHCPData hcpText =
     \<lparr>specialty =
        (case regexMatch specialtyRegex hcpText of
           Some g \<Rightarrow> Some (trim g)
         | None \<Rightarrow>
             if str_includes hcpText ''Cardiologist'' then Some ''Cardiology''
             else if str_includes hcpText ''Oncologist'' then Some ''Oncology''
             else if str_includes hcpText ''Neurologist'' then Some ''Neurology''
             else None),
      prescription_rate = map_option parseFloat (regexMatch prescriptionRateRegex hcpText),
      practice_size = map_option trim (regexMatch practiceSizeRegex hcpText),
      years_experience = map_option parseInt (regexMatch yearsExperienceRegex hcpText)\<rparr>"

subsection \<open>MediTag segmenter: segmentation\<close>

record characteristics =
  hcpData :: HCPData
  segmentReason :: string

record MediTagResult =
  segment :: string
  confidence :: rat
  characteristics :: characteristics

definition getSegmentReason :: "string \<Rightarrow> HCPData \<Rightarrow> string" where
  "getSegmentReason seg d =
     (if seg = ''Early Adopter'' then ''High prescription rate and/or recent entry to practice''
      else if seg = ''Evidence Driven''
        then ''Significant experience and moderate prescription patterns''
      else if seg = ''Mainstream'' then ''Average prescription rate with balanced approach''
      else if seg = ''Conservative''
        then ''Lower prescription rate, likely preferring established treatments''
      else ''Insufficient data for detailed segmentation'')"

text \<open>
  \<^verbatim>\<open>segmentHCP\<close> assigns \<^verbatim>\<open>segment\<close> and \<^verbatim>\<open>confidence\<close> in two steps: the
  rules on prescription rate and experience (\<open>segmentRules\<close>), then the adjustment of
  the confidence by specialty (\<open>specialtyAdjustment\<close>).
\<close>

definition segmentRules :: "HCPData \<Rightarrow> string \<times> rat" where
  "segmentRules d =
     (case prescription_rate d of
        Some rate \<Rightarrow>
          if num_gt rate (Num (7/10)) then (''Early Adopter'', 85/100)
          else if num_gt rate (Num (4/10)) then
            (case years_experience d of
               Some years \<Rightarrow>
                 if num_gt years (Num 10) then (''Evidence Driven'', 9/10)
                 else (''Mainstream'', 75/100)
             | None \<Rightarrow> (''Mainstream'', 75/100))
          else (''Conservative'', 8/10)
      | None \<Rightarrow>
          (case years_experience d of
             Some years \<Rightarrow>
               if num_gt years (Num 15) then (''Evidence Driven'', 7/10)
               else if num_lt years (Num 5) then (''Early Adopter'', 6/10)
               else (''General'', 7/10)
           | None \<Rightarrow> (''General'', 7/10)))"

definition specialtyAdjustment :: "HCPData \<Rightarrow> string \<times> rat \<Rightarrow> string \<times> rat" where
  "specialtyAdjustment d sc =
     (case sc of (seg, conf) \<Rightarrow>
        if specialty d = Some ''Oncology'' then
          (if seg \<noteq> ''Evidence Driven'' then (seg, conf - 1/10) else (seg, conf + 5/100))
        else if specialty d = Some ''Cardiology'' then
          (if practice_size d = Some ''large'' \<and> seg \<noteq> ''Mainstream''
           then (seg, conf - 1/10) else (seg, conf))
        else (seg, conf))"

definition segmentHCP :: "HCPData \<Rightarrow> MediTagResult" where
  "segmentHCP d =
     (case specialtyAdjustment d (segmentRules d) of (seg, conf) \<Rightarrow>
        \<lparr>segment = seg, confidence = conf,
         characteristics = \<lparr>hcpData = d, segmentReason = getSegmentReason seg d\<rparr>\<rparr>)"

text \<open>
  \<^verbatim>\<open>analyzeHCP\<close> wraps the two in a \<^verbatim>\<open>try\<close>; neither throws on a string, so the
  \<^verbatim>\<open>catch\<close> branch has nothing to catch.
\<close>

definition analyzeHCP :: "string \<Rightarrow> error + MediTagResult" where
  "analyzeHCP hcpText = Inr (segmentHCP (parseHCPData hcpText))"

subsection \<open>Responses of the video providers\<close>

text \<open>
  The body of an HTTP response as \<^verbatim>\<open>axios\<close> hands it over: a JSON value, or
  \<^verbatim>\<open>undefined\<close>. An object is the list of its own properties; the first binding of
  a key counts.
\<close>

datatype json =
    JUndefined
  | JNull
  | JBool bool
  | JNumber rat
  | JString string
  | JArray "json list"
  | JObject "(string \<times> json) list"

text \<open>\<^verbatim>\<open>if (v)\<close>, \<^verbatim>\<open>v && ...\<close>, \<^verbatim>\<open>v || ...\<close>: whether a value is truthy.\<close>

fun truthy :: "json \<Rightarrow> bool" where
  "truthy JUndefined = False"
| "truthy JNull = False"
| "truthy (JBool b) = b"
| "truthy (JNumber n) = (n \<noteq> 0)"
| "truthy (JString s) = (s \<noteq> [])"
| "truthy (JArray xs) = True"
| "truthy (JObject kvs) = True"

text \<open>
  \<^verbatim>\<open>v.key\<close>, for the keys the providers' clients and the script generator read
  (\<^verbatim>\<open>data\<close>, \<^verbatim>\<open>id\<close>, \<^verbatim>\<open>video_id\<close>, \<^verbatim>\<open>task_id\<close>, \<^verbatim>\<open>status\<close>,
  \<^verbatim>\<open>video_url\<close>, \<^verbatim>\<open>result\<close>, \<^verbatim>\<open>url\<close>, \<^verbatim>\<open>script\<close>, \<^verbatim>\<open>duration\<close>,
  \<^verbatim>\<open>targetAudience\<close>), none of which a string, number, boolean or array has: a
  \<^verbatim>\<open>TypeError\<close> on \<^verbatim>\<open>null\<close> and \<^verbatim>\<open>undefined\<close>, the property of an object,
  \<^verbatim>\<open>undefined\<close> otherwise.
\<close>

fun getProp :: "json \<Rightarrow> string \<Rightarrow> error + json" where
  "getProp JUndefined key = Inl TypeError"
| "getProp JNull key = Inl TypeError"
| "getProp (JObject kvs) key =
     Inr (case map_of kvs key of Some v \<Rightarrow> v | None \<Rightarrow> JUndefined)"
| "getProp v key = Inr JUndefined"

text \<open>
  The string under which a value is looked up when it is used as a property key,
  \<^verbatim>\<open>map[v]\<close>: a string is its own key, an array is the keys of its elements joined
  by commas (with nothing for \<^verbatim>\<open>null\<close> and \<^verbatim>\<open>undefined\<close>), an object is
  \<^verbatim>\<open>[object Object]\<close>. The digits of a number are outside the model: \<open>None\<close>.
\<close>

fun joinKeys :: "string option list \<Rightarrow> string option" where
  "joinKeys [] = Some []"
| "joinKeys [k] = k"
| "joinKeys (k # ks) =
     (case (k, joinKeys ks) of
        (Some a, Some b) \<Rightarrow> Some (a @ '','' @ b)
      | _ \<Rightarrow> None)"

fun propertyKey :: "json \<Rightarrow> string option" where
  "propertyKey JUndefined = Some ''undefined''"
| "propertyKey JNull = Some ''null''"
| "propertyKey (JBool b) = Some (if b then ''true'' else ''false'')"
| "propertyKey (JNumber n) = None"
| "propertyKey (JString s) = Some s"
| "propertyKey (JArray xs) =
     joinKeys (map (\<lambda>x. if x = JNull \<or> x = JUndefined then Some [] else propertyKey x) xs)"
| "propertyKey (JObject kvs) = Some ''[object Object]''"

text \<open>Sequencing of steps that may throw.\<close>

definition andThen :: "error + 'a \<Rightarrow> ('a \<Rightarrow> error + 'b) \<Rightarrow> error + 'b" where
  "andThen r f = (case r of Inl e \<Rightarrow> Inl e | Inr x \<Rightarrow> f x)"

text \<open>
  \<^verbatim>\<open>s.replace(pat, rep)\<close> with a string pattern: the first occurrence is replaced.
\<close>

fun str_replace :: "string \<Rightarrow> string \<Rightarrow> string \<Rightarrow> string" where
  "str_replace [] pat rep = (if pat = [] then rep else [])"
| "str_replace (c # s) pat rep =
     (if startsWith (c # s) pat then rep @ drop (length pat) (c # s)
      else c # str_replace s pat rep)"

text \<open>
  \<^verbatim>\<open>generateThumbnailUrl\<close>, on the value it is handed: \<^verbatim>\<open>replace\<close> is a method of
  strings only, and calling it on anything else is a \<^verbatim>\<open>TypeError\<close>.
\<close>

fun generateThumbnailUrl :: "json \<Rightarrow> error + string" where
  "generateThumbnailUrl (JString videoUrl) = Inr (str_replace videoUrl ''.mp4'' ''.jpg'')"
| "generateThumbnailUrl v = Inl TypeError"

record VideoGenerationResult =
  videoUrl :: json
  thumbnailUrl :: string
  videoId :: json

definition placeholderVideoUrl :: string where
  "placeholderVideoUrl =
     ''https://assets.mixkit.co/videos/preview/mixkit-medical-team-in-a-hospital-room-31695-large.mp4''"

definition placeholderThumbnailUrl :: string where
  "placeholderThumbnailUrl =
     ''https://assets.mixkit.co/videos/preview/mixkit-medical-team-in-a-hospital-room-31695-large.jpg''"

definition placeholderResult :: VideoGenerationResult where
  "placeholderResult =
     \<lparr>videoUrl = JString placeholderVideoUrl,
      thumbnailUrl = placeholderThumbnailUrl,
      videoId = JString ''simulated-video-id''\<rparr>"

subsection \<open>Video provider: HeyGen\<close>

text \<open>
  The provider as \<^verbatim>\<open>generateVideo\<close> sees it: the API key of the environment and the
  four endpoints, each a function from the request (API key, avatar and script, or API
  key and video id) to \<open>Inr\<close> of the response body or \<open>Inl\<close> when \<^verbatim>\<open>axios\<close> rejects.
\<close>

record heygen =
  HEYGEN_API_KEY :: "string option"
  post_v2_video_generate :: "string \<Rightarrow> string \<Rightarrow> string \<Rightarrow> error + json"
  post_v1_video_speech_generate :: "string \<Rightarrow> string \<Rightarrow> string \<Rightarrow> error + json"
  get_v1_video_status :: "string \<Rightarrow> json \<Rightarrow> error + json"
  get_v1_task_status :: "string \<Rightarrow> json \<Rightarrow> error + json"

definition avatarMap :: "(string \<times> string) list" where
  "avatarMap =
     [(''Cardiologist'', ''Anna-headshot-20240205''),
      (''Oncologist'', ''Dave-headshot-20240205''),
      (''Neurologist'', ''Angela-inTshirt-20220820''),
      (''Pediatrician'', ''Ben-office-20220820''),
      (''Dermatologist'', ''Mark-office-20220820'')]"

text \<open>
  \<^verbatim>\<open>avatarMap[targetHCP] || "Angela-inTshirt-20220820"\<close>, on whatever value the
  caller hands over as \<^verbatim>\<open>targetHCP\<close>. A key that involves the digits of a number is
  none of the five names, which are made of letters: the default.
\<close>

definition getAvatarForHCP :: "json \<Rightarrow> string" where
  "getAvatarForHCP targetHCP =
     (case propertyKey targetHCP of
        None \<Rightarrow> ''Angela-inTshirt-20220820''
      | Some key \<Rightarrow>
          (case map_of avatarMap key of
             Some a \<Rightarrow> a
           | None \<Rightarrow> ''Angela-inTshirt-20220820''))"

text \<open>The first \<^verbatim>\<open>try\<close> of \<^verbatim>\<open>generateVideo\<close>: the v2 endpoint.\<close>

definition submitV2 :: "heygen \<Rightarrow> string \<Rightarrow> string \<Rightarrow> string \<Rightarrow> error + json" where
  "submitV2 p apiKey avatarId script =
     andThen (post_v2_video_generate p apiKey avatarId script) (\<lambda>body.
     andThen (getProp body ''data'') (\<lambda>d.
       if truthy d then
         andThen (getProp d ''video_id'') (\<lambda>video_id.
           if truthy video_id then Inr video_id
           else Inl (Error ''V2 API did not return a video ID''))
       else Inl (Error ''V2 API did not return a video ID'')))"

text \<open>Its \<^verbatim>\<open>catch\<close>: the v1 endpoint.\<close>

definition submitV1 :: "heygen \<Rightarrow> string \<Rightarrow> string \<Rightarrow> string \<Rightarrow> error + json" where
  "submitV1 p apiKey avatarId script =
     andThen (post_v1_video_speech_generate p apiKey avatarId script) (\<lambda>body.
     andThen (getProp body ''status'') (\<lambda>st.
       if st = JString ''success'' then
         andThen (getProp body ''data'') (\<lambda>d.
           if truthy d then
             andThen (getProp d ''task_id'') (\<lambda>task_id.
               if truthy task_id then Inr task_id
               else Inl (Error ''HeyGen v1 API error''))
           else Inl (Error ''HeyGen v1 API error''))
       else Inl (Error ''HeyGen v1 API error'')))"

definition submitVideo :: "heygen \<Rightarrow> string \<Rightarrow> string \<Rightarrow> string \<Rightarrow> error + json" where
  "submitVideo p apiKey avatarId script =
     (case submitV2 p apiKey avatarId script of
        Inr vid \<Rightarrow> Inr vid
      | Inl v2Error \<Rightarrow> submitV1 p apiKey avatarId script)"

text \<open>\<^verbatim>\<open>checkVideoStatus\<close>: two endpoints in turn, then the placeholder.\<close>

definition videoStatusUrl :: "heygen \<Rightarrow> json \<Rightarrow> string \<Rightarrow> error + json" where
  "videoStatusUrl p vid apiKey =
     andThen (get_v1_video_status p apiKey vid) (\<lambda>body.
       if truthy body then
         andThen (getProp body ''data'') (\<lambda>d.
           if truthy d then
             andThen (getProp d ''video_url'') (\<lambda>video_url.
               if truthy video_url then Inr video_url
               else Inl (Error ''V1 video_status did not return a video URL''))
           else Inl (Error ''V1 video_status did not return a video URL''))
       else Inl (Error ''V1 video_status did not return a video URL''))"

definition taskStatusUrl :: "heygen \<Rightarrow> json \<Rightarrow> string \<Rightarrow> error + json" where
  "taskStatusUrl p vid apiKey =
     andThen (get_v1_task_status p apiKey vid) (\<lambda>body.
       if truthy body then
         andThen (getProp body ''data'') (\<lambda>d.
           if truthy d then
             andThen (getProp d ''result'') (\<lambda>res.
               if truthy res then
                 andThen (getProp res ''url'') (\<lambda>url.
                   if truthy url then Inr url
                   else Inl (Error ''V1 task_status did not return a video URL''))
               else Inl (Error ''V1 task_status did not return a video URL''))
           else Inl (Error ''V1 task_status did not return a video URL''))
       else Inl (Error ''V1 task_status did not return a video URL''))"

definition checkVideoStatus :: "heygen \<Rightarrow> json \<Rightarrow> string \<Rightarrow> error + json" where
  "checkVideoStatus p vid apiKey =
     (case (case videoStatusUrl p vid apiKey of
              Inr url \<Rightarrow> Inr url
            | Inl v1StatusError \<Rightarrow> taskStatusUrl p vid apiKey) of
        Inr url \<Rightarrow> Inr url
      | Inl e \<Rightarrow> Inr (JString placeholderVideoUrl))"

text \<open>
  \<^verbatim>\<open>generateVideo\<close> of \<^verbatim>\<open>heygenApi.ts\<close>: the body of its \<^verbatim>\<open>try\<close>, and the
  function with its \<^verbatim>\<open>catch\<close>.
\<close>

definition generateVideoTry :: "heygen \<Rightarrow> string \<Rightarrow> json \<Rightarrow> error + VideoGenerationResult" where
  "generateVideoTry p script targetHCP =
     (case HEYGEN_API_KEY p of
        None \<Rightarrow> Inl (Error ''HEYGEN_API_KEY is not configured'')
      | Some apiKey \<Rightarrow>
          if apiKey = [] then Inl (Error ''HEYGEN_API_KEY is not configured'')
          else
            (let avatarId = getAvatarForHCP targetHCP in
             andThen (submitVideo p apiKey avatarId script) (\<lambda>vid.
             andThen (checkVideoStatus p vid apiKey) (\<lambda>url.
             andThen (generateThumbnailUrl url) (\<lambda>thumb.
               Inr \<lparr>videoUrl = url, thumbnailUrl = thumb, videoId = vid\<rparr>)))))"

definition generateVideo :: "heygen \<Rightarrow> string \<Rightarrow> json \<Rightarrow> error + VideoGenerationResult" where
  "generateVideo p script targetHCP =
     (case generateVideoTry p script targetHCP of
        Inr r \<Rightarrow> Inr r
      | Inl e \<Rightarrow> Inr placeholderResult)"

subsection \<open>Video provider: VEO\<close>

text \<open>
  The VEO provider: its API key and its one endpoint, from API key, script and speaker
  to the response body or a rejection. \<^verbatim>\<open>pollForVideoCompletion\<close> asks nothing of
  the provider and resolves to the placeholder.
\<close>

record veo =
  VEO_API_KEY :: "string option"
  post_veo :: "string \<Rightarrow> string \<Rightarrow> string \<Rightarrow> error + json"

definition speakerMap :: "(string \<times> string) list" where
  "speakerMap =
     [(''Cardiologist'', ''professional_male_1''),
      (''Oncologist'', ''professional_female_1''),
      (''Neurologist'', ''professional_male_2''),
      (''Pediatrician'', ''friendly_female_1''),
      (''Dermatologist'', ''professional_female_2'')]"

definition getSpeakerForHCP :: "json \<Rightarrow> string" where
  "getSpeakerForHCP targetHCP =
     (case propertyKey targetHCP of
        None \<Rightarrow> ''professional_male_1''
      | Some key \<Rightarrow>
          (case map_of speakerMap key of
             Some sp \<Rightarrow> sp
           | None \<Rightarrow> ''professional_male_1''))"

definition pollForVideoCompletion :: "json \<Rightarrow> string \<Rightarrow> error + json" where
  "pollForVideoCompletion vid apiKey = Inr (JString placeholderVideoUrl)"

definition veoGenerateVideoTry :: "veo \<Rightarrow> string \<Rightarrow> json \<Rightarrow> error + VideoGenerationResult" where
  "veoGenerateVideoTry p script targetHCP =
     (case VEO_API_KEY p of
        None \<Rightarrow> Inl (Error ''VEO_API_KEY is not configured'')
      | Some apiKey \<Rightarrow>
          if apiKey = [] then Inl (Error ''VEO_API_KEY is not configured'')
          else
            (case
               andThen (post_veo p apiKey script (getSpeakerForHCP targetHCP)) (\<lambda>body.
                 if truthy body then
                   andThen (getProp body ''id'') (\<lambda>vid.
                     if truthy vid then
                       andThen (pollForVideoCompletion vid apiKey) (\<lambda>url.
                       andThen (generateThumbnailUrl url) (\<lambda>thumb.
                         Inr \<lparr>videoUrl = url, thumbnailUrl = thumb, videoId = vid\<rparr>))
                     else Inl (Error ''VEO API error''))
                 else Inl (Error ''VEO API error''))
             of Inr r \<Rightarrow> Inr r
              | Inl axiosError \<Rightarrow> Inl (Error ''VEO API Error'')))"

definition veoGenerateVideo :: "veo \<Rightarrow> string \<Rightarrow> json \<Rightarrow> error + VideoGenerationResult" where
  "veoGenerateVideo p script targetHCP =
     (case veoGenerateVideoTry p script targetHCP of
        Inr r \<Rightarrow> Inr r
      | Inl e \<Rightarrow> Inr placeholderResult)"

subsection \<open>Language-model calls\<close>

text \<open>
  One call to the chat-completion service followed by \<^verbatim>\<open>JSON.parse\<close> of its
  content: the request is rejected, or the content does not parse, or it parses to a
  value. \<^verbatim>\<open>generateScript\<close> takes that value as it comes, a JSON value of any
  shape; \<^verbatim>\<open>checkCompliance\<close> is given it at the type it declares for the verdict.
\<close>

datatype 'a completion = TransportError | ParseError | Reply 'a

text \<open>
  What \<^verbatim>\<open>generateScript\<close> returns: the three fields of the parsed value, unchecked.
  A field that the reply does not have is \<^verbatim>\<open>undefined\<close>. The field
  \<^verbatim>\<open>duration\<close> is \<open>duration_s\<close> here.
\<close>

record ScriptGenerationResult =
  script :: json
  duration_s :: json
  targetAudience :: json

text \<open>
  \<^verbatim>\<open>generateScript\<close>: the service is a function of the HCP text, the prompt and the
  document path, from which the messages are built. Inside the \<^verbatim>\<open>try\<close> the request
  may be rejected, \<^verbatim>\<open>JSON.parse\<close> may throw, and reading a field of \<^verbatim>\<open>null\<close>
  throws; the \<^verbatim>\<open>catch\<close> turns whatever was thrown into the one generic error.
\<close>

definition generateScript ::
  "(string \<Rightarrow> string \<Rightarrow> string option \<Rightarrow> json completion) \<Rightarrow>
   string \<Rightarrow> string \<Rightarrow> string option \<Rightarrow> error + ScriptGenerationResult" where
  "generateScript llm hcpText prompt' documentPath =
     (case
        (case llm hcpText prompt' documentPath of
           TransportError \<Rightarrow> Inl (Error ''Request failed'')
         | ParseError \<Rightarrow> Inl (Error ''Unexpected token in JSON'')
         | Reply result \<Rightarrow>
             andThen (getProp result ''script'') (\<lambda>s.
             andThen (getProp result ''duration'') (\<lambda>d.
             andThen (getProp result ''targetAudience'') (\<lambda>t.
               Inr \<lparr>script = s, duration_s = d, targetAudience = t\<rparr>))))
      of Inr r \<Rightarrow> Inr r
       | Inl e \<Rightarrow> Inl ScriptGenerationError)"

definition checkCompliance ::
  "(string \<Rightarrow> compliance_details completion) \<Rightarrow> string \<Rightarrow> error + compliance_details" where
  "checkCompliance llm script' =
     (case llm script' of
        Reply result \<Rightarrow>
          Inr \<lparr>d_passed = d_passed result, d_score = d_score result,
               d_issues = d_issues result, d_recommendations = d_recommendations result\<rparr>
      | TransportError \<Rightarrow> Inl ComplianceCheckError
      | ParseError \<Rightarrow> Inl ComplianceCheckError)"

subsection \<open>Storage\<close>

text \<open>
  The rows of \<^verbatim>\<open>shared/schema.ts\<close>, without their timestamps. The key \<^verbatim>\<open>id\<close>
  of an upload is \<open>u_id\<close>, that of a video \<open>v_id\<close>.
\<close>

record InsertUpload =
  user_id :: string
  hcp_text :: string
  document_path :: "string option"

record Upload = InsertUpload +
  u_id :: nat

record InsertVideo =
  title :: string
  upload_id :: nat
  prompt :: string
  target_hcp :: string
  video_url :: json
  thumbnail_url :: string
  duration :: int
  compliance_status :: compliance_status
  meditag_segment :: string
  generated_script :: string
  compliance_details :: compliance_details

record Video = InsertVideo +
  v_id :: nat

text \<open>
  Modelled from the spec: \<^verbatim>\<open>server/storage.ts\<close>, the persistence store behind
  \<^verbatim>\<open>storage.createUpload\<close>, \<^verbatim>\<open>storage.getUpload\<close>,
  \<^verbatim>\<open>storage.createVideo\<close> and \<^verbatim>\<open>storage.listVideos\<close>. The spec gives
  \<^verbatim>\<open>createUpload(fields) -> Upload\<close>, \<^verbatim>\<open>getUpload(id) -> Upload | NotFound\<close>,
  \<^verbatim>\<open>createVideo(fields) -> Video\<close> and \<^verbatim>\<open>listVideos(limit?) -> [Video]\<close>
  ordered newest-first; the keys are the schema's \<^verbatim>\<open>serial\<close> columns, which count
  from 1. The store keeps its rows newest first and the last key it gave out.
\<close>

record storage =
  uploads :: "Upload list"
  videos :: "Video list"
  uploadSerial :: nat
  videoSerial :: nat

text \<open>
  Modelled from the spec: \<^verbatim>\<open>storage.createUpload\<close> of the absent
  \<^verbatim>\<open>server/storage.ts\<close>, \<^verbatim>\<open>createUpload(fields) -> Upload\<close>: the row gets the
  next key and is stored.
\<close>

definition storage_createUpload :: "InsertUpload \<Rightarrow> storage \<Rightarrow> Upload \<times> storage" where
  "storage_createUpload ins st =
     (let row = \<lparr>user_id = user_id ins, hcp_text = hcp_text ins,
                 document_path = document_path ins, u_id = Suc (uploadSerial st)\<rparr>
      in (row, st\<lparr>uploads := row # uploads st, uploadSerial := Suc (uploadSerial st)\<rparr>))"

text \<open>
  Modelled from the spec: \<^verbatim>\<open>storage.getUpload\<close> of the absent
  \<^verbatim>\<open>server/storage.ts\<close>, \<^verbatim>\<open>getUpload(id) -> Upload | NotFound\<close>: the row with
  that key, \<open>None\<close> for \<^verbatim>\<open>undefined\<close>.
\<close>

definition storage_getUpload :: "nat \<Rightarrow> storage \<Rightarrow> Upload option" where
  "storage_getUpload key st = find (\<lambda>u. u_id u = key) (uploads st)"

text \<open>
  Modelled from the spec: \<^verbatim>\<open>storage.createVideo\<close> of the absent
  \<^verbatim>\<open>server/storage.ts\<close>, \<^verbatim>\<open>createVideo(fields) -> Video\<close>: the row gets the next
  key and is stored.
\<close>

definition storage_createVideo :: "InsertVideo \<Rightarrow> storage \<Rightarrow> Video \<times> storage" where
  "storage_createVideo ins st =
     (let row =
            \<lparr>title = title ins, upload_id = upload_id ins, prompt = prompt ins,
             target_hcp = target_hcp ins, video_url = video_url ins,
             thumbnail_url = thumbnail_url ins, duration = duration ins,
             compliance_status = compliance_status ins,
             meditag_segment = meditag_segment ins,
             generated_script = generated_script ins,
             compliance_details = compliance_details ins,
             v_id = Suc (videoSerial st)\<rparr>
      in (row, st\<lparr>videos := row # videos st, videoSerial := Suc (videoSerial st)\<rparr>))"

text \<open>
  Modelled from the spec: \<^verbatim>\<open>storage.listVideos\<close> of the absent
  \<^verbatim>\<open>server/storage.ts\<close>, \<^verbatim>\<open>listVideos(limit?) -> [Video]\<close> without a limit:
  all rows, newest first.
\<close>

definition storage_listVideos :: "storage \<Rightarrow> Video list" where
  "storage_listVideos st = videos st"

subsection \<open>Video service\<close>

definition toUpperChar :: "char \<Rightarrow> char" where
  "toUpperChar c =
     (if (97::nat) \<le> of_char c \<and> of_char c \<le> (122::nat)
      then char_of (of_char c - (32::nat)) else c)"

text \<open>
  \<^verbatim>\<open>.replace(/create a|video for|about/g, '')\<close>: from left to right, the first
  alternative that matches at a position is cut out and the scan goes on behind it.
  The first argument counts the characters still to be cut.
\<close>

fun removeFiller :: "nat \<Rightarrow> string \<Rightarrow> string" where
  "removeFiller n [] = []"
| "removeFiller (Suc n) (c # s) = removeFiller n s"
| "removeFiller 0 (c # s) =
     (if startsWith (c # s) ''create a'' then removeFiller 7 s
      else if startsWith (c # s) ''video for'' then removeFiller 8 s
      else if startsWith (c # s) ''about'' then removeFiller 4 s
      else c # removeFiller 0 s)"

text \<open>\<^verbatim>\<open>.split(' ')\<close> and \<^verbatim>\<open>.join(' ')\<close>.\<close>

fun split_space :: "string \<Rightarrow> string list" where
  "split_space [] = [[]]"
| "split_space (c # s) =
     (if c = CHR '' '' then [] # split_space s
      else (case split_space s of w # ws \<Rightarrow> (c # w) # ws | [] \<Rightarrow> [[c]]))"

fun join_space :: "string list \<Rightarrow> string" where
  "join_space [] = []"
| "join_space [w] = w"
| "join_space (w # ws) = w @ '' '' @ join_space ws"

definition capitalize :: "string \<Rightarrow> string" where
  "capitalize w = (case w of [] \<Rightarrow> [] | c # cs \<Rightarrow> toUpperChar c # cs)"

definition getVideoTitle :: "string \<Rightarrow> string \<Rightarrow> string" where
  "getVideoTitle prompt' targetHCP =
     (let keywords =
            map capitalize
              (take 3 (filter (\<lambda>w. length w > 3)
                 (split_space (removeFiller 0 (toLowerCase prompt')))))
      in if length keywords = 0 then targetHCP @ '' Information Video''
         else targetHCP @ '' '' @ join_space keywords)"

definition defaultHcpText :: string where
  "defaultHcpText =
     ''Cardiologist with 10 years of experience, working in a large hospital setting''"

text \<open>
  What a run of \<^verbatim>\<open>createVideo\<close> calls outside the process: the two language-model
  services and the video provider (\<^verbatim>\<open>generateVideo\<close> is imported from
  \<^verbatim>\<open>heygenApi\<close>).
\<close>

record services =
  scriptService :: "string \<Rightarrow> string \<Rightarrow> string option \<Rightarrow> json completion"
  complianceService :: "string \<Rightarrow> compliance_details completion"
  videoProvider :: heygen

text \<open>
  The first part of \<^verbatim>\<open>createVideo\<close>: from \<^verbatim>\<open>uploadId\<close> and \<^verbatim>\<open>hcpText\<close> to
  \<^verbatim>\<open>finalHcpText\<close>, \<^verbatim>\<open>uploadIdToUse\<close> and \<^verbatim>\<open>documentPath\<close>.
  \<^verbatim>\<open>if (uploadId)\<close> holds of a number other than 0, \<^verbatim>\<open>if (hcpText)\<close> of a string
  other than the empty one.
\<close>

definition resolveInput ::
  "storage \<Rightarrow> nat option \<Rightarrow> string option \<Rightarrow>
   (error + string \<times> nat option \<times> string option) \<times> storage" where
  "resolveInput st uploadId hcpText =
     (if uploadId \<noteq> None \<and> uploadId \<noteq> Some 0 then
        (case storage_getUpload (the uploadId) st of
           None \<Rightarrow> (Inl (UploadNotFound (the uploadId)), st)
         | Some upload \<Rightarrow> (Inr (hcp_text upload, uploadId, document_path upload), st))
      else if hcpText \<noteq> None \<and> hcpText \<noteq> Some [] then
        (if trim (the hcpText) \<noteq> [] then
           (case storage_createUpload
                   \<lparr>user_id = ''anonymous'', hcp_text = the hcpText, document_path = None\<rparr> st of
              (upload, st') \<Rightarrow> (Inr (the hcpText, Some (u_id upload), None), st'))
         else (Inr (defaultHcpText, uploadId, None), st))
      else
        (case storage_createUpload
                \<lparr>user_id = ''anonymous'', hcp_text = defaultHcpText, document_path = None\<rparr> st of
           (upload, st') \<Rightarrow> (Inr (defaultHcpText, Some (u_id upload), None), st')))"

text \<open>
  \<^verbatim>\<open>evaluateCompliance(scriptResult.script)\<close>, on whatever value the script generator
  returned as the script. On a string it is \<open>evaluateCompliance\<close>, and the result
  comes with the string, as which the rest of the run uses the script. On any other
  value \<^verbatim>\<open>script.toLowerCase()\<close> is a \<^verbatim>\<open>TypeError\<close>, in
  \<^verbatim>\<open>containsEvidenceBasedLanguage\<close> inside the \<^verbatim>\<open>try\<close> and again in
  \<^verbatim>\<open>simpleComplianceCheck\<close> inside the \<^verbatim>\<open>catch\<close>, whether or not
  \<^verbatim>\<open>checkCompliance\<close> threw before: the second one leaves the function.
\<close>

definition evaluateComplianceValue ::
  "(string \<Rightarrow> error + compliance_details) \<Rightarrow> json \<Rightarrow> error + string \<times> ComplianceResult" where
  "evaluateComplianceValue chk v =
     (case v of
        JString scriptText \<Rightarrow> Inr (scriptText, evaluateCompliance chk scriptText)
      | _ \<Rightarrow> Inl TypeError)"

text \<open>
  Modelled from the spec: what \<^verbatim>\<open>storage.createVideo\<close> of the absent
  \<^verbatim>\<open>server/storage.ts\<close> does with a target audience and a duration that came
  unchecked from the language model. The rows of the store have the columns of
  \<^verbatim>\<open>shared/schema.ts\<close>, \<^verbatim>\<open>target_hcp\<close> a text and \<^verbatim>\<open>duration\<close> an integer,
  both not null, and the spec's draft has a string and a number there: a string and an
  integer are stored, and the store refuses a row with anything else.
\<close>

definition columnValues :: "json \<Rightarrow> json \<Rightarrow> (string \<times> int) option" where
  "columnValues target secs =
     (case (target, secs) of
        (JString t, JNumber n) \<Rightarrow> if of_int \<lfloor>n\<rfloor> = n then Some (t, \<lfloor>n\<rfloor>) else None
      | _ \<Rightarrow> None)"

text \<open>
  The rest of \<^verbatim>\<open>createVideo\<close>, from \<^verbatim>\<open>analyzeHCP\<close> to
  \<^verbatim>\<open>storage.createVideo\<close>; the \<^verbatim>\<open>catch\<close> of \<^verbatim>\<open>createVideo\<close> rethrows. The
  title of the row is computed where the row is known to fit the store.
\<close>

definition produceVideo ::
  "services \<Rightarrow> storage \<Rightarrow> string \<Rightarrow> string \<Rightarrow> nat option \<Rightarrow> string option \<Rightarrow>
   (error + Video) \<times> storage" where
  "produceVideo sv st prompt' finalHcpText uploadIdToUse documentPath =
     (case analyzeHCP finalHcpText of
        Inl e \<Rightarrow> (Inl e, st)
      | Inr meditagResult \<Rightarrow>
     (case generateScript (scriptService sv) finalHcpText prompt' documentPath of
        Inl e \<Rightarrow> (Inl e, st)
      | Inr scriptResult \<Rightarrow>
     (case evaluateComplianceValue (checkCompliance (complianceService sv))
             (script scriptResult) of
        Inl e \<Rightarrow> (Inl e, st)
      | Inr (scriptText, complianceResult) \<Rightarrow>
     (case generateVideo (videoProvider sv) scriptText (targetAudience scriptResult) of
        Inl e \<Rightarrow> (Inl e, st)
      | Inr videoResult \<Rightarrow>
     (case columnValues (targetAudience scriptResult) (duration_s scriptResult) of
        None \<Rightarrow> (Inl (Error ''The row does not fit the table videos''), st)
      | Some (target, secs) \<Rightarrow>
     (let insertVideo =
            \<lparr>title = getVideoTitle prompt' target,
             upload_id = (case uploadIdToUse of Some n \<Rightarrow> n | None \<Rightarrow> 0),
             prompt = prompt',
             target_hcp = target,
             video_url = videoUrl videoResult,
             thumbnail_url = thumbnailUrl videoResult,
             duration = secs,
             compliance_status = status complianceResult,
             meditag_segment = segment meditagResult,
             generated_script = scriptText,
             compliance_details = details complianceResult\<rparr>
      in (case storage_createVideo insertVideo st of (video, st') \<Rightarrow> (Inr video, st'))))))))"

definition createVideo ::
  "services \<Rightarrow> storage \<Rightarrow> nat option \<Rightarrow> string \<Rightarrow> string option \<Rightarrow>
   (error + Video) \<times> storage" where
  "createVideo sv st uploadId prompt' hcpText =
     (case resolveInput st uploadId hcpText of
        (Inl e, st') \<Rightarrow> (Inl e, st')
      | (Inr (finalHcpText, uploadIdToUse, documentPath), st') \<Rightarrow>
          produceVideo sv st' prompt' finalHcpText uploadIdToUse documentPath)"

subsection \<open>Compliance statistics\<close>

text \<open>
  \<^verbatim>\<open>Math.round\<close> rounds to the nearest integer, a half upwards;
  \<^verbatim>\<open>+x.toFixed(1)\<close> rounds to the nearest tenth, a half away from zero.
\<close>

definition Math_round :: "rat \<Rightarrow> int" where
  "Math_round x = \<lfloor>x + 1/2\<rfloor>"

definition toFixed1 :: "rat \<Rightarrow> rat" where
  "toFixed1 x =
     (if x < 0 then - (of_int \<lfloor>10 * (- x) + 1/2\<rfloor> / 10) else of_int \<lfloor>10 * x + 1/2\<rfloor> / 10)"

record ComplianceStats =
  compliance_rate :: int
  hcp_response_rate :: int
  turnaround_time :: string
  videos_generated :: nat
  videos_passed :: nat
  avg_duration :: rat
  adoption_gains :: string

definition getComplianceStats :: "storage \<Rightarrow> ComplianceStats" where
  "getComplianceStats st =
     (let vs = storage_listVideos st;
          totalVideos = length vs;
          passedVideos = length (filter (\<lambda>v. compliance_status v = Passed) vs);
          rate = (if totalVideos > 0
                  then Math_round ((of_nat passedVideos / of_nat totalVideos) * 100)
                  else 95);
          totalDuration = foldl (\<lambda>sum video. sum + duration video) 0 vs;
          avg = (if totalVideos > 0
                 then toFixed1 (of_int totalDuration / of_nat totalVideos)
                 else 85/10)
      in \<lparr>compliance_rate = rate,
          hcp_response_rate = 20,
          turnaround_time = ''7-15 days'',
          videos_generated = (if totalVideos \<noteq> 0 then totalVideos else 127),
          videos_passed = (if passedVideos \<noteq> 0 then passedVideos else 121),
          avg_duration = avg,
          adoption_gains = ''$380K''\<rparr>)"

section \<open>Example inputs\<close>


text \<open>A compliance call that is rejected.\<close>

definition rejectedVerdict :: "string \<Rightarrow> error + compliance_details" where
  "rejectedVerdict txt = Inl ComplianceCheckError"

text \<open>A request that \<^verbatim>\<open>axios\<close> rejects.\<close>

definition rejected :: "error + json" where
  "rejected = Inl (Error ''Request failed with status code 500'')"

text \<open>A HeyGen provider with no API key in the environment; every endpoint rejects.\<close>

definition noKeyProvider :: heygen where
  "noKeyProvider =
     \<lparr>HEYGEN_API_KEY = None,
      post_v2_video_generate = (\<lambda>apiKey avatarId scr. rejected),
      post_v1_video_speech_generate = (\<lambda>apiKey avatarId scr. rejected),
      get_v1_video_status = (\<lambda>apiKey vid. rejected),
      get_v1_task_status = (\<lambda>apiKey vid. rejected)\<rparr>"

text \<open>The same with an API key: both submissions are rejected.\<close>

definition rejectingProvider :: heygen where
  "rejectingProvider = noKeyProvider\<lparr>HEYGEN_API_KEY := Some ''key''\<rparr>"

text \<open>A HeyGen provider that accepts the v2 submission with the job id
  \<^verbatim>\<open>job-42\<close> and rejects both status requests.\<close>

definition pollingFailureProvider :: heygen where
  "pollingFailureProvider =
     rejectingProvider\<lparr>post_v2_video_generate :=
       (\<lambda>apiKey avatarId scr.
          Inr (JObject [(''data'', JObject [(''video_id'', JString ''job-42'')])]))\<rparr>"

text \<open>A VEO provider with no API key.\<close>

definition noKeyVeo :: veo where
  "noKeyVeo = \<lparr>VEO_API_KEY = None, post_veo = (\<lambda>apiKey scr speaker. rejected)\<rparr>"

text \<open>The store before anything was written.\<close>

definition emptyStorage :: storage where
  "emptyStorage = \<lparr>uploads = [], videos = [], uploadSerial = 0, videoSerial = 0\<rparr>"

text \<open>A run in which the script is drafted, the compliance call is rejected and the video
  provider has no API key.\<close>

definition exampleServices :: services where
  "exampleServices =
     \<lparr>scriptService = (\<lambda>hcpText prompt' documentPath.
        Reply (JObject
          [(''script'', JString ''An evidence-based note on heart failure.''),
           (''duration'', JNumber 8),
           (''targetAudience'', JString ''Cardiologist'')])),
      complianceService = (\<lambda>txt. TransportError),
      videoProvider = noKeyProvider\<rparr>"

text \<open>The same with a reply of the script service that does not parse.\<close>

definition failingScriptServices :: services where
  "failingScriptServices =
     exampleServices\<lparr>scriptService := (\<lambda>hcpText prompt' documentPath. ParseError)\<rparr>"

text \<open>The same with the reply \<^verbatim>\<open>{}\<close>: it parses, and has none of the fields.\<close>

definition emptyReplyServices :: services where
  "emptyReplyServices =
     exampleServices\<lparr>scriptService := (\<lambda>hcpText prompt' documentPath. Reply (JObject []))\<rparr>"

text \<open>
  A HeyGen provider that accepts the v2 submission with the job id \<^verbatim>\<open>job-42\<close> and
  answers the first status request with a video URL that is the number 5.
\<close>

definition numericUrlProvider :: heygen where
  "numericUrlProvider =
     pollingFailureProvider\<lparr>get_v1_video_status :=
       (\<lambda>apiKey vid. Inr (JObject [(''data'', JObject [(''video_url'', JNumber 5)])]))\<rparr>"

text \<open>
  A HeyGen provider that accepts the v2 submission with the job id \<^verbatim>\<open>job-42\<close> and
  answers the first status request with the URL of the finished video.
\<close>

definition workingProvider :: heygen where
  "workingProvider =
     pollingFailureProvider\<lparr>get_v1_video_status :=
       (\<lambda>apiKey vid.
          Inr (JObject [(''data'',
                 JObject [(''video_url'', JString ''https://files.heygen.ai/job-42.mp4'')])]))\<rparr>"

text \<open>A VEO provider that answers every submission with the job id \<^verbatim>\<open>veo-7\<close>.\<close>

definition workingVeo :: veo where
  "workingVeo =
     \<lparr>VEO_API_KEY = Some ''key'',
      post_veo = (\<lambda>apiKey scriptText speaker. Inr (JObject [(''id'', JString ''veo-7'')]))\<rparr>"

text \<open>A video row with a given key, status and duration.\<close>

definition exampleVideo :: "nat \<Rightarrow> compliance_status \<Rightarrow> int \<Rightarrow> Video" where
  "exampleVideo key st secs =
     \<lparr>title = ''Cardiologist Heart Failure'', upload_id = 1, prompt = ''heart failure'',
      target_hcp = ''Cardiologist'', video_url = JString placeholderVideoUrl,
      thumbnail_url = placeholderThumbnailUrl, duration = secs, compliance_status = st,
      meditag_segment = ''General'', generated_script = ''An evidence-based note.'',
      compliance_details =
        \<lparr>d_passed = (st = Passed), d_score = Num 80, d_issues = None,
         d_recommendations = None\<rparr>,
      v_id = key\<rparr>"

text \<open>
  A store with one upload and three videos: two passed, one in review; 8, 9 and 8
  seconds.
\<close>

definition exampleStorage :: storage where
  "exampleStorage =
     \<lparr>uploads = [\<lparr>user_id = ''anonymous'', hcp_text = defaultHcpText,
                   document_path = None, u_id = 1\<rparr>],
      videos = [exampleVideo 3 Passed 8, exampleVideo 2 Review 9, exampleVideo 1 Passed 8],
      uploadSerial = 1, videoSerial = 3\<rparr>"

section \<open>Properties\<close>

subsection \<open>Strings\<close>

lemma startsWith_prefix: "startsWith s t \<longleftrightarrow> prefix t s"
  by (induction s t rule: startsWith.induct) auto

lemma str_includes_sublist: "str_includes s t \<longleftrightarrow> sublist t s"
proof (induction s)
  case Nil
  show ?case by simp
next
  case (Cons c s)
  show ?case
    using Cons.IH by (simp only: str_includes.simps startsWith_prefix sublist_Cons_right)
qed

subsection \<open>Compliance checker\<close>

lemma containsEvidenceBasedLanguage_iff:
  "containsEvidenceBasedLanguage txt \<longleftrightarrow>
     (\<exists>m \<in> set evidenceTerms. sublist m (toLowerCase txt))"
  by (simp add: containsEvidenceBasedLanguage_def list_ex_iff str_includes_sublist)

lemma simpleComplianceCheck_iff:
  "simpleComplianceCheck txt \<longleftrightarrow>
     (\<exists>m \<in> set evidenceTerms. sublist m (toLowerCase txt)) \<and>
     \<not> (\<exists>b \<in> set nonCompliantTerms. sublist b (toLowerCase txt))"
  by (simp add: simpleComplianceCheck_def containsEvidenceBasedLanguage_iff list_ex_iff
      str_includes_sublist)



text \<open>
  Claim C2. When \<^verbatim>\<open>checkCompliance\<close> throws, the result is Passed with score 80 and
  empty issues and recommendations exactly when the lower-cased script contains an
  evidence term and no non-compliant term; otherwise it is Review with score 50 and
  the generic issue and recommendation. It is never Failed.
\<close>

theorem evaluateCompliance_fallback:
  assumes "chk txt = Inl e"
  shows "(if (\<exists>m \<in> set evidenceTerms. sublist m (toLowerCase txt)) \<and>
             \<not> (\<exists>b \<in> set nonCompliantTerms. sublist b (toLowerCase txt))
          then status (evaluateCompliance chk txt) = Passed \<and>
               d_score (details (evaluateCompliance chk txt)) = Num 80 \<and>
               d_issues (details (evaluateCompliance chk txt)) = Some [] \<and>
               d_recommendations (details (evaluateCompliance chk txt)) = Some []
          else status (evaluateCompliance chk txt) = Review \<and>
               d_score (details (evaluateCompliance chk txt)) = Num 50 \<and>
               d_issues (details (evaluateCompliance chk txt)) =
                 Some [''Compliance check error - limited validation performed''] \<and>
               d_recommendations (details (evaluateCompliance chk txt)) =
                 Some [''Include explicit evidence-based language''])
         \<and> status (evaluateCompliance chk txt) \<noteq> Failed"
  using assms
  by (simp add: evaluateCompliance_def Let_def simpleComplianceCheck_iff)

text \<open>
  The fallback on three scripts: evidence language alone passes; evidence language next
  to a banned term, and no evidence language at all, go to review.
\<close>

theorem evaluateCompliance_fallback_witness:
  "rejectedVerdict ''A Clinical Trial showed a benefit.'' = Inl ComplianceCheckError
   \<and> status (evaluateCompliance rejectedVerdict ''A Clinical Trial showed a benefit.'') = Passed
   \<and> d_score (details (evaluateCompliance rejectedVerdict
        ''A Clinical Trial showed a benefit.'')) = Num 80
   \<and> status (evaluateCompliance rejectedVerdict ''A clinical trial showed a Miracle.'') = Review
   \<and> status (evaluateCompliance rejectedVerdict ''Guaranteed to work.'') = Review
   \<and> d_score (details (evaluateCompliance rejectedVerdict ''Guaranteed to work.'')) = Num 50"
proof -
  have h: "\<And>t. rejectedVerdict t = Inl ComplianceCheckError"
    by (simp add: rejectedVerdict_def)
  have a: "simpleComplianceCheck ''A Clinical Trial showed a benefit.''"
    by code_simp
  have b: "\<not> simpleComplianceCheck ''A clinical trial showed a Miracle.''"
    by code_simp
  have c: "\<not> simpleComplianceCheck ''Guaranteed to work.''"
    by code_simp
  show ?thesis
    using evaluateCompliance_fallback [where chk = rejectedVerdict, OF h,
        of "''A Clinical Trial showed a benefit.''"]
      evaluateCompliance_fallback [where chk = rejectedVerdict, OF h,
        of "''A clinical trial showed a Miracle.''"]
      evaluateCompliance_fallback [where chk = rejectedVerdict, OF h,
        of "''Guaranteed to work.''"]
      h a b c
    by (simp add: simpleComplianceCheck_iff)
qed

text \<open>
  Claim C9. On both paths, whatever \<^verbatim>\<open>checkCompliance\<close> does, the result has
  \<^verbatim>\<open>passed = true\<close> exactly when its status is Passed.
\<close>

theorem evaluateCompliance_passed_iff_status:
  "passed (evaluateCompliance chk txt) \<longleftrightarrow> status (evaluateCompliance chk txt) = Passed"
  by (cases "chk txt") (simp_all add: evaluateCompliance_def Let_def)

subsection \<open>MediTag segmenter\<close>

text \<open>
  Claim C4. For every HCP text whose parsed \<^verbatim>\<open>prescription_rate\<close> is present, the
  rules assign, before the adjustment by specialty: Early Adopter with confidence 0.85
  when the rate is above 0.7; Evidence Driven with confidence 0.9 when the rate is above
  0.4 and at most 0.7 and the parsed \<^verbatim>\<open>years_experience\<close> is above 10; Mainstream
  with confidence 0.75 when the rate is in that range and the years are absent or at
  most 10; Conservative with confidence 0.8 when the rate is at most 0.4. The adjustment
  leaves the segment as the rules assigned it.
\<close>

theorem segmentRules_prescription_rate:
  assumes "prescription_rate (parseHCPData hcpText) = Some rate"
  shows "(num_gt rate (Num (7/10)) \<longrightarrow>
            segmentRules (parseHCPData hcpText) = (''Early Adopter'', 85/100))
       \<and> (num_gt rate (Num (4/10)) \<and> num_le rate (Num (7/10)) \<and>
            (\<exists>years. years_experience (parseHCPData hcpText) = Some years \<and>
                     num_gt years (Num 10)) \<longrightarrow>
            segmentRules (parseHCPData hcpText) = (''Evidence Driven'', 9/10))
       \<and> (num_gt rate (Num (4/10)) \<and> num_le rate (Num (7/10)) \<and>
            (years_experience (parseHCPData hcpText) = None \<or>
             (\<exists>years. years_experience (parseHCPData hcpText) = Some years \<and>
                      num_le years (Num 10))) \<longrightarrow>
            segmentRules (parseHCPData hcpText) = (''Mainstream'', 75/100))
       \<and> (num_le rate (Num (4/10)) \<longrightarrow>
            segmentRules (parseHCPData hcpText) = (''Conservative'', 8/10))
       \<and> segment (segmentHCP (parseHCPData hcpText)) = fst (segmentRules (parseHCPData hcpText))"
proof -
  define d where "d = parseHCPData hcpText"
  have r: "prescription_rate d = Some rate" using assms by (simp add: d_def)
  have 1: "num_gt rate (Num (7/10)) \<longrightarrow> segmentRules d = (''Early Adopter'', 85/100)"
    using r by (simp add: segmentRules_def)
  have 2: "num_gt rate (Num (4/10)) \<and> num_le rate (Num (7/10)) \<and>
            (\<exists>years. years_experience d = Some years \<and> num_gt years (Num 10)) \<longrightarrow>
            segmentRules d = (''Evidence Driven'', 9/10)"
    using r by (cases rate) (auto simp add: segmentRules_def)
  have 3: "num_gt rate (Num (4/10)) \<and> num_le rate (Num (7/10)) \<and>
            (years_experience d = None \<or>
             (\<exists>years. years_experience d = Some years \<and> num_le years (Num 10))) \<longrightarrow>
            segmentRules d = (''Mainstream'', 75/100)"
  proof (cases rate)
    case NaN
    then show ?thesis by simp
  next
    case (Num x)
    show ?thesis
    proof (cases "years_experience d")
      case None
      then show ?thesis using r Num by (auto simp add: segmentRules_def)
    next
      case (Some y)
      then show ?thesis using r Num by (cases y) (auto simp add: segmentRules_def)
    qed
  qed
  have 4: "num_le rate (Num (4/10)) \<longrightarrow> segmentRules d = (''Conservative'', 8/10)"
    using r by (cases rate) (auto simp add: segmentRules_def)
  have 5: "segment (segmentHCP d) = fst (segmentRules d)"
    by (cases "segmentRules d") (simp add: segmentHCP_def specialtyAdjustment_def)
  show ?thesis using 1 2 3 4 5 unfolding d_def by blast
qed

text \<open>
  One HCP text for each of the four cases.
\<close>

theorem segmentRules_prescription_rate_witness:
  "prescription_rate (parseHCPData ''Cardiologist, prescription_rate: 0.8, years_experience: 12'')
     = Some (Num (8/10))
   \<and> segmentRules (parseHCPData ''Cardiologist, prescription_rate: 0.8, years_experience: 12'')
     = (''Early Adopter'', 85/100)
   \<and> segmentRules (parseHCPData ''prescription_rate: 0.55, years_experience: 12'')
     = (''Evidence Driven'', 9/10)
   \<and> segmentRules (parseHCPData ''prescription_rate: 0.7'') = (''Mainstream'', 75/100)
   \<and> segmentRules (parseHCPData ''prescription_rate: 0.4, years_experience: 30'')
     = (''Conservative'', 8/10)"
proof -
  have a: "prescription_rate
      (parseHCPData ''Cardiologist, prescription_rate: 0.8, years_experience: 12'')
     = Some (Num (8/10))"
    by code_simp
  have b: "prescription_rate (parseHCPData ''prescription_rate: 0.55, years_experience: 12'')
     = Some (Num (55/100))"
    and b': "years_experience (parseHCPData ''prescription_rate: 0.55, years_experience: 12'')
     = Some (Num 12)"
    by code_simp+
  have c: "prescription_rate (parseHCPData ''prescription_rate: 0.7'') = Some (Num (7/10))"
    and c': "years_experience (parseHCPData ''prescription_rate: 0.7'') = None"
    by code_simp+
  have d: "prescription_rate (parseHCPData ''prescription_rate: 0.4, years_experience: 30'')
     = Some (Num (4/10))"
    by code_simp
  show ?thesis
    using segmentRules_prescription_rate [OF a] segmentRules_prescription_rate [OF b]
      segmentRules_prescription_rate [OF c] segmentRules_prescription_rate [OF d]
      a b' c'
    by simp
qed

lemma segmentRules_range:
  "snd (segmentRules d) \<in> {6/10, 7/10, 75/100, 8/10, 85/100, 9/10}"
  by (simp add: segmentRules_def split: option.split)

lemma segmentHCP_confidence_bounds:
  "1/2 \<le> confidence (segmentHCP d) \<and> confidence (segmentHCP d) \<le> 95/100"
proof -
  obtain seg conf where sc: "segmentRules d = (seg, conf)" by (cases "segmentRules d")
  have c: "conf \<in> {6/10, 7/10, 75/100, 8/10, 85/100, 9/10}"
    using segmentRules_range [of d] sc by simp
  show ?thesis
    using c by (auto simp add: segmentHCP_def specialtyAdjustment_def sc)
qed

text \<open>
  Claim C7. For every HCP text, \<^verbatim>\<open>analyzeHCP\<close> returns, and the confidence of its
  result lies between 0 and 1, the adjustments for Oncology (+0.05, -0.1) and for
  Cardiology with a large practice (-0.1) included: the rules assign a confidence between
  0.6 and 0.9, and +0.05 is only added to one of at most 0.9.
\<close>

theorem analyzeHCP_confidence_in_unit_interval:
  "\<exists>r. analyzeHCP hcpText = Inr r \<and> 0 \<le> confidence r \<and> confidence r \<le> 1"
proof -
  have "1/2 \<le> confidence (segmentHCP (parseHCPData hcpText))"
    and "confidence (segmentHCP (parseHCPData hcpText)) \<le> 95/100"
    using segmentHCP_confidence_bounds [of "parseHCPData hcpText"] by simp_all
  then show ?thesis by (simp add: analyzeHCP_def)
qed

text \<open>
  Claim C10. The text \<^verbatim>\<open>prescription_rate: .\<close> matches the pattern of the
  prescription rate with the group \<^verbatim>\<open>.\<close>, which \<^verbatim>\<open>parseFloat\<close> turns into
  \<^verbatim>\<open>NaN\<close>: the rate is present, fails both comparisons, and the segment is
  Conservative with confidence 0.8.
\<close>

theorem segmentHCP_non_numeric_rate:
  "prescriptionRateRegex ''prescription_rate: .'' = Some ''.''
   \<and> prescription_rate (parseHCPData ''prescription_rate: .'') = Some NaN
   \<and> analyzeHCP ''prescription_rate: .'' =
       Inr \<lparr>segment = ''Conservative'', confidence = 8/10,
            characteristics =
              \<lparr>hcpData = \<lparr>specialty = None, prescription_rate = Some NaN,
                          practice_size = None, years_experience = None\<rparr>,
               segmentReason =
                 ''Lower prescription rate, likely preferring established treatments''\<rparr>\<rparr>"
  by code_simp

subsection \<open>Video providers\<close>

lemma placeholderVideoUrl_nonempty: "placeholderVideoUrl \<noteq> []"
  by (simp add: placeholderVideoUrl_def)

lemma placeholder_thumbnail:
  "str_replace placeholderVideoUrl ''.mp4'' ''.jpg'' = placeholderThumbnailUrl"
  by (simp add: placeholderVideoUrl_def placeholderThumbnailUrl_def)

lemma videoStatusUrl_truthy: "videoStatusUrl p vid k = Inr url \<Longrightarrow> truthy url"
  by (auto simp add: videoStatusUrl_def andThen_def split: sum.splits if_splits)

lemma taskStatusUrl_truthy: "taskStatusUrl p vid k = Inr url \<Longrightarrow> truthy url"
  by (auto simp add: taskStatusUrl_def andThen_def split: sum.splits if_splits)

lemma checkVideoStatus_returns:
  "\<exists>url. checkVideoStatus p vid k = Inr url \<and> truthy url"
  by (auto simp add: checkVideoStatus_def placeholderVideoUrl_nonempty
      split: sum.splits dest: videoStatusUrl_truthy taskStatusUrl_truthy)

lemma checkVideoStatus_polling_failure:
  "videoStatusUrl p vid k = Inl e1 \<Longrightarrow> taskStatusUrl p vid k = Inl e2 \<Longrightarrow>
   checkVideoStatus p vid k = Inr (JString placeholderVideoUrl)"
  by (simp add: checkVideoStatus_def)

lemma checkVideoStatus_answer:
  "videoStatusUrl p vid k = Inr url \<or>
   (\<exists>e1. videoStatusUrl p vid k = Inl e1 \<and> taskStatusUrl p vid k = Inr url) \<Longrightarrow>
   checkVideoStatus p vid k = Inr url"
  by (auto simp add: checkVideoStatus_def)

lemma generateThumbnailUrl_Inr:
  "generateThumbnailUrl url = Inr thumb \<Longrightarrow> \<exists>u. url = JString u"
  by (cases url) simp_all

lemma generateThumbnailUrl_not_string:
  "\<forall>u. url \<noteq> JString u \<Longrightarrow> generateThumbnailUrl url = Inl TypeError"
  by (cases url) simp_all

lemma generateVideoTry_url:
  assumes "generateVideoTry p scr hcp = Inr r"
  shows "\<exists>u. videoUrl r = JString u \<and> u \<noteq> []"
proof -
  from assms obtain k vid url thumb where
    "checkVideoStatus p vid k = Inr url" and "generateThumbnailUrl url = Inr thumb"
    and r: "videoUrl r = url"
    by (auto simp add: generateVideoTry_def andThen_def Let_def
        split: option.splits if_splits sum.splits)
  moreover from this obtain u where "url = JString u"
    using generateThumbnailUrl_Inr by blast
  moreover have "truthy url"
    using checkVideoStatus_returns [of p vid k] calculation(1) by auto
  ultimately show ?thesis using r by auto
qed

lemma placeholderResult_url:
  "\<exists>u. videoUrl placeholderResult = JString u \<and> u \<noteq> []"
  by (simp add: placeholderResult_def placeholderVideoUrl_nonempty)

lemma generateVideo_returns:
  "\<exists>r. generateVideo p scr hcp = Inr r \<and> (\<exists>u. videoUrl r = JString u \<and> u \<noteq> [])"
proof (cases "generateVideoTry p scr hcp")
  case (Inl e)
  then show ?thesis by (simp add: generateVideo_def placeholderResult_url)
next
  case (Inr r)
  then show ?thesis using generateVideoTry_url [OF Inr] by (simp add: generateVideo_def)
qed

lemma generateVideo_no_key:
  "HEYGEN_API_KEY p = None \<or> HEYGEN_API_KEY p = Some [] \<Longrightarrow>
   generateVideo p scr hcp = Inr placeholderResult"
  by (auto simp add: generateVideo_def generateVideoTry_def)

lemma generateVideo_submit_failure:
  "HEYGEN_API_KEY p = Some k \<Longrightarrow> submitVideo p k (getAvatarForHCP hcp) scr = Inl e \<Longrightarrow>
   generateVideo p scr hcp = Inr placeholderResult"
  by (auto simp add: generateVideo_def generateVideoTry_def andThen_def)

lemma generateVideo_polling_failure:
  "HEYGEN_API_KEY p = Some k \<Longrightarrow> k \<noteq> [] \<Longrightarrow>
   submitVideo p k (getAvatarForHCP hcp) scr = Inr vid \<Longrightarrow>
   videoStatusUrl p vid k = Inl e1 \<Longrightarrow> taskStatusUrl p vid k = Inl e2 \<Longrightarrow>
   generateVideo p scr hcp =
     Inr \<lparr>videoUrl = JString placeholderVideoUrl, thumbnailUrl = placeholderThumbnailUrl,
          videoId = vid\<rparr>"
  by (simp add: generateVideo_def generateVideoTry_def andThen_def
      checkVideoStatus_polling_failure placeholder_thumbnail)

lemma generateVideo_status_string:
  "HEYGEN_API_KEY p = Some k \<Longrightarrow> k \<noteq> [] \<Longrightarrow>
   submitVideo p k (getAvatarForHCP hcp) scr = Inr vid \<Longrightarrow>
   checkVideoStatus p vid k = Inr (JString u) \<Longrightarrow>
   generateVideo p scr hcp =
     Inr \<lparr>videoUrl = JString u, thumbnailUrl = str_replace u ''.mp4'' ''.jpg'',
          videoId = vid\<rparr>"
  by (simp add: generateVideo_def generateVideoTry_def andThen_def)

lemma generateVideo_status_not_string:
  "HEYGEN_API_KEY p = Some k \<Longrightarrow> k \<noteq> [] \<Longrightarrow>
   submitVideo p k (getAvatarForHCP hcp) scr = Inr vid \<Longrightarrow>
   checkVideoStatus p vid k = Inr url \<Longrightarrow> \<forall>u. url \<noteq> JString u \<Longrightarrow>
   generateVideo p scr hcp = Inr placeholderResult"
  by (simp add: generateVideo_def generateVideoTry_def andThen_def
      generateThumbnailUrl_not_string)

lemma veoGenerateVideo_returns:
  "\<exists>r. veoGenerateVideo q scr hcp = Inr r \<and> videoUrl r = JString placeholderVideoUrl
       \<and> thumbnailUrl r = placeholderThumbnailUrl"
  by (auto simp add: veoGenerateVideo_def veoGenerateVideoTry_def andThen_def
      pollForVideoCompletion_def placeholder_thumbnail placeholderResult_def
      split: option.splits sum.splits if_splits)

lemma veoGenerateVideo_no_key:
  "VEO_API_KEY q = None \<or> VEO_API_KEY q = Some [] \<Longrightarrow>
   veoGenerateVideo q scr hcp = Inr placeholderResult"
  by (auto simp add: veoGenerateVideo_def veoGenerateVideoTry_def)

lemma veoGenerateVideo_rejected:
  "VEO_API_KEY q = Some k \<Longrightarrow> post_veo q k scr (getSpeakerForHCP hcp) = Inl e \<Longrightarrow>
   veoGenerateVideo q scr hcp = Inr placeholderResult"
  by (auto simp add: veoGenerateVideo_def veoGenerateVideoTry_def andThen_def)

lemma veoGenerateVideo_no_id:
  "VEO_API_KEY q = Some k \<Longrightarrow> post_veo q k scr (getSpeakerForHCP hcp) = Inr body \<Longrightarrow>
   \<not> truthy body \<or> (\<exists>v. getProp body ''id'' = Inr v \<and> \<not> truthy v) \<Longrightarrow>
   veoGenerateVideo q scr hcp = Inr placeholderResult"
  by (auto simp add: veoGenerateVideo_def veoGenerateVideoTry_def andThen_def)

lemma veoGenerateVideo_id:
  "VEO_API_KEY q = Some k \<Longrightarrow> k \<noteq> [] \<Longrightarrow>
   post_veo q k scr (getSpeakerForHCP hcp) = Inr body \<Longrightarrow> truthy body \<Longrightarrow>
   getProp body ''id'' = Inr vid \<Longrightarrow> truthy vid \<Longrightarrow>
   veoGenerateVideo q scr hcp =
     Inr \<lparr>videoUrl = JString placeholderVideoUrl, thumbnailUrl = placeholderThumbnailUrl,
          videoId = vid\<rparr>"
  by (simp add: veoGenerateVideo_def veoGenerateVideoTry_def andThen_def
      pollForVideoCompletion_def placeholder_thumbnail)

subsection \<open>Video service\<close>

lemma resolveInput_videos:
  "resolveInput st uid hcpText = (res, st') \<Longrightarrow> videos st' = videos st"
  by (auto simp add: resolveInput_def storage_createUpload_def Let_def
      split: if_splits option.splits)

text \<open>
  The two ways to the default profile: an absent or empty HCP text creates an Upload for
  it; a text of white space only does not, and leaves the store as it is.
\<close>

lemma resolveInput_absent_hcpText:
  assumes "uid = None \<or> uid = Some 0" and "hcpText = None \<or> hcpText = Some []"
  shows "resolveInput st uid hcpText =
     (Inr (defaultHcpText, Some (Suc (uploadSerial st)), None),
      st\<lparr>uploads := \<lparr>user_id = ''anonymous'', hcp_text = defaultHcpText,
                       document_path = None, u_id = Suc (uploadSerial st)\<rparr> # uploads st,
         uploadSerial := Suc (uploadSerial st)\<rparr>)"
  using assms by (auto simp add: resolveInput_def storage_createUpload_def Let_def)

lemma resolveInput_blank_hcpText:
  assumes "uid = None \<or> uid = Some 0" and "t \<noteq> []" and "trim t = []"
  shows "resolveInput st uid (Some t) = (Inr (defaultHcpText, uid, None), st)"
  using assms by (auto simp add: resolveInput_def)

text \<open>
  What \<^verbatim>\<open>generateScript\<close> does with each outcome of the call, and that a run
  which ends in an error leaves the videos of the store as they were.
\<close>

lemma generateScript_failure:
  "llm h prm d = TransportError \<or> llm h prm d = ParseError \<or> llm h prm d = Reply JNull \<or>
   llm h prm d = Reply JUndefined \<Longrightarrow>
   generateScript llm h prm d = Inl ScriptGenerationError"
  by (auto simp add: generateScript_def andThen_def)

lemma generateScript_reply:
  "llm h prm d = Reply reply \<Longrightarrow> getProp reply ''script'' = Inr s \<Longrightarrow>
   \<exists>secs t. getProp reply ''duration'' = Inr secs \<and> getProp reply ''targetAudience'' = Inr t \<and>
     generateScript llm h prm d = Inr \<lparr>script = s, duration_s = secs, targetAudience = t\<rparr>"
  by (cases reply) (auto simp add: generateScript_def andThen_def)

lemma produceVideo_videos:
  "produceVideo sv st prm h u d = (Inl e, st') \<Longrightarrow> st' = st"
  by (auto simp add: produceVideo_def Let_def storage_createVideo_def
      split: sum.splits option.splits prod.splits)

lemma createVideo_failure_no_video:
  assumes "createVideo sv st uid prm hcpText = (Inl e, st'')"
  shows "videos st'' = videos st"
proof (cases "resolveInput st uid hcpText")
  case (Pair res st')
  have v: "videos st' = videos st" using resolveInput_videos [OF Pair] .
  show ?thesis
  proof (cases res)
    case (Inl e')
    then show ?thesis using assms Pair v by (simp add: createVideo_def)
  next
    case (Inr x)
    obtain h u d where x: "x = (h, u, d)" by (cases x)
    have "produceVideo sv st' prm h u d = (Inl e, st'')"
      using assms Pair Inr x by (simp add: createVideo_def)
    then have "st'' = st'" by (rule produceVideo_videos)
    then show ?thesis using v by simp
  qed
qed

lemma createVideo_persists:
  assumes "resolveInput st uid hcpText = (Inr (h, u, d), st')"
    and "scriptService sv h prm d = Reply reply"
    and "getProp reply ''script'' = Inr (JString s)"
    and "getProp reply ''targetAudience'' = Inr (JString t)"
    and "getProp reply ''duration'' = Inr (JNumber (of_int n))"
  shows "\<exists>v st''. createVideo sv st uid prm hcpText = (Inr v, st'') \<and> v \<in> set (videos st'')
           \<and> (\<exists>url. video_url v = JString url \<and> url \<noteq> [])"
proof -
  have g: "generateScript (scriptService sv) h prm d =
      Inr \<lparr>script = JString s, duration_s = JNumber (of_int n), targetAudience = JString t\<rparr>"
    using generateScript_reply [of "scriptService sv" h prm d reply "JString s"]
      assms(2) assms(3) assms(4) assms(5) by auto
  obtain r url where r: "generateVideo (videoProvider sv) s (JString t) = Inr r"
    and url: "videoUrl r = JString url" "url \<noteq> []"
    using generateVideo_returns by blast
  show ?thesis
    using assms(1) g r url
    by (simp add: createVideo_def produceVideo_def analyzeHCP_def evaluateComplianceValue_def
        columnValues_def storage_createVideo_def Let_def)
qed

text \<open>
  Against claim C3 as stated: when the HeyGen provider accepts the submission and both
  status requests fail, \<^verbatim>\<open>checkVideoStatus\<close> answers with the placeholder URL by
  itself, and \<^verbatim>\<open>generateVideo\<close> returns the placeholder video and thumbnail with the
  job id of the provider, not with the simulated video id.
\<close>

theorem generateVideo_polling_failure_keeps_id:
  "videoStatusUrl pollingFailureProvider (JString ''job-42'') ''key'' = rejected
   \<and> taskStatusUrl pollingFailureProvider (JString ''job-42'') ''key'' = rejected
   \<and> generateVideo pollingFailureProvider ''An evidence-based note.''
         (JString ''Cardiologist'') =
       Inr \<lparr>videoUrl = JString placeholderVideoUrl, thumbnailUrl = placeholderThumbnailUrl,
            videoId = JString ''job-42''\<rparr>
   \<and> generateVideo pollingFailureProvider ''An evidence-based note.''
         (JString ''Cardiologist'') \<noteq>
       Inr placeholderResult"
  by (simp add: pollingFailureProvider_def rejectingProvider_def noKeyProvider_def
      rejected_def generateVideo_def generateVideoTry_def submitVideo_def submitV2_def
      andThen_def checkVideoStatus_def videoStatusUrl_def taskStatusUrl_def
      placeholder_thumbnail placeholderResult_def getAvatarForHCP_def avatarMap_def)

text \<open>
  Claim C3, amended. For every script and target audience \<^verbatim>\<open>generateVideo\<close> returns
  and its \<^verbatim>\<open>videoUrl\<close> is a non-empty string. With HeyGen it returns the placeholder
  video URL, the placeholder thumbnail URL and the simulated video id when the API key
  is missing, when the submission fails on both endpoints (rejected or malformed), and
  when a status endpoint answers with a URL that is not a string. When a status endpoint
  answers with a string, it returns that URL, the thumbnail derived from it and the job
  id. When the submission succeeds and both status requests fail (rejected, or without
  a URL), it returns the placeholder video and thumbnail URLs with the job id of the
  provider. With VEO it returns the placeholder video and thumbnail URLs always, with
  the simulated video id when the key is missing, the request is rejected or the
  response has no id, and with the id of the provider otherwise. A run of
  \<^verbatim>\<open>createVideo\<close> whose input resolves and whose drafted reply has a string script, a
  string target audience and an integer duration stores a Video whose
  \<^verbatim>\<open>video_url\<close> is a non-empty string.
\<close>

theorem generateVideo_never_raises:
  "(\<exists>r. generateVideo p scr hcp = Inr r
        \<and> (\<exists>u. videoUrl r = JString u \<and> u \<noteq> [])
        \<and> (HEYGEN_API_KEY p = None \<or> HEYGEN_API_KEY p = Some [] \<longrightarrow> r = placeholderResult)
        \<and> (\<forall>k e. HEYGEN_API_KEY p = Some k \<and>
                   submitVideo p k (getAvatarForHCP hcp) scr = Inl e \<longrightarrow>
                   r = placeholderResult)
        \<and> (\<forall>k vid url.
              HEYGEN_API_KEY p = Some k \<and> k \<noteq> [] \<and>
              submitVideo p k (getAvatarForHCP hcp) scr = Inr vid \<and>
              (videoStatusUrl p vid k = Inr url \<or>
               (\<exists>e1. videoStatusUrl p vid k = Inl e1 \<and> taskStatusUrl p vid k = Inr url)) \<and>
              (\<forall>u. url \<noteq> JString u) \<longrightarrow>
              r = placeholderResult)
        \<and> (\<forall>k vid u.
              HEYGEN_API_KEY p = Some k \<and> k \<noteq> [] \<and>
              submitVideo p k (getAvatarForHCP hcp) scr = Inr vid \<and>
              (videoStatusUrl p vid k = Inr (JString u) \<or>
               (\<exists>e1. videoStatusUrl p vid k = Inl e1 \<and>
                     taskStatusUrl p vid k = Inr (JString u))) \<longrightarrow>
              r = \<lparr>videoUrl = JString u, thumbnailUrl = str_replace u ''.mp4'' ''.jpg'',
                   videoId = vid\<rparr>)
        \<and> (\<forall>k vid e1 e2.
              HEYGEN_API_KEY p = Some k \<and> k \<noteq> [] \<and>
              submitVideo p k (getAvatarForHCP hcp) scr = Inr vid \<and>
              videoStatusUrl p vid k = Inl e1 \<and> taskStatusUrl p vid k = Inl e2 \<longrightarrow>
              r = \<lparr>videoUrl = JString placeholderVideoUrl,
                   thumbnailUrl = placeholderThumbnailUrl, videoId = vid\<rparr>))
   \<and> (\<exists>r. veoGenerateVideo q scr hcp = Inr r
        \<and> videoUrl r = JString placeholderVideoUrl
        \<and> thumbnailUrl r = placeholderThumbnailUrl
        \<and> (VEO_API_KEY q = None \<or> VEO_API_KEY q = Some [] \<longrightarrow> r = placeholderResult)
        \<and> (\<forall>k e. VEO_API_KEY q = Some k \<and>
                   post_veo q k scr (getSpeakerForHCP hcp) = Inl e \<longrightarrow>
                   r = placeholderResult)
        \<and> (\<forall>k body. VEO_API_KEY q = Some k \<and>
                   post_veo q k scr (getSpeakerForHCP hcp) = Inr body \<and>
                   (\<not> truthy body \<or> (\<exists>v. getProp body ''id'' = Inr v \<and> \<not> truthy v)) \<longrightarrow>
                   r = placeholderResult)
        \<and> (\<forall>k body vid. VEO_API_KEY q = Some k \<and> k \<noteq> [] \<and>
                   post_veo q k scr (getSpeakerForHCP hcp) = Inr body \<and> truthy body \<and>
                   getProp body ''id'' = Inr vid \<and> truthy vid \<longrightarrow>
                   videoId r = vid))
   \<and> (\<forall>h u d st' reply s t n.
         resolveInput st uid hcpText = (Inr (h, u, d), st') \<and>
         scriptService sv h prm d = Reply reply \<and>
         getProp reply ''script'' = Inr (JString s) \<and>
         getProp reply ''targetAudience'' = Inr (JString t) \<and>
         getProp reply ''duration'' = Inr (JNumber (of_int n)) \<longrightarrow>
         (\<exists>v st''. createVideo sv st uid prm hcpText = (Inr v, st'') \<and>
                    v \<in> set (videos st'') \<and>
                    (\<exists>url. video_url v = JString url \<and> url \<noteq> [])))"
proof (intro conjI)
  obtain r where r: "generateVideo p scr hcp = Inr r"
    and u: "\<exists>u. videoUrl r = JString u \<and> u \<noteq> []"
    using generateVideo_returns by blast
  have a: "HEYGEN_API_KEY p = None \<or> HEYGEN_API_KEY p = Some [] \<longrightarrow> r = placeholderResult"
    using generateVideo_no_key [of p scr hcp] r by auto
  have b: "\<forall>k e. HEYGEN_API_KEY p = Some k \<and>
                   submitVideo p k (getAvatarForHCP hcp) scr = Inl e \<longrightarrow>
                   r = placeholderResult"
    using generateVideo_submit_failure [of p _ hcp scr] r by auto
  have c: "\<forall>k vid url.
              HEYGEN_API_KEY p = Some k \<and> k \<noteq> [] \<and>
              submitVideo p k (getAvatarForHCP hcp) scr = Inr vid \<and>
              (videoStatusUrl p vid k = Inr url \<or>
               (\<exists>e1. videoStatusUrl p vid k = Inl e1 \<and> taskStatusUrl p vid k = Inr url)) \<and>
              (\<forall>u. url \<noteq> JString u) \<longrightarrow>
              r = placeholderResult"
  proof (intro allI impI)
    fix k vid url
    assume h: "HEYGEN_API_KEY p = Some k \<and> k \<noteq> [] \<and>
              submitVideo p k (getAvatarForHCP hcp) scr = Inr vid \<and>
              (videoStatusUrl p vid k = Inr url \<or>
               (\<exists>e1. videoStatusUrl p vid k = Inl e1 \<and> taskStatusUrl p vid k = Inr url)) \<and>
              (\<forall>u. url \<noteq> JString u)"
    then have "checkVideoStatus p vid k = Inr url"
      using checkVideoStatus_answer [of p vid k url] by blast
    then have "generateVideo p scr hcp = Inr placeholderResult"
      using h generateVideo_status_not_string [of p k hcp scr vid url] by blast
    then show "r = placeholderResult" using r by simp
  qed
  have d: "\<forall>k vid u.
              HEYGEN_API_KEY p = Some k \<and> k \<noteq> [] \<and>
              submitVideo p k (getAvatarForHCP hcp) scr = Inr vid \<and>
              (videoStatusUrl p vid k = Inr (JString u) \<or>
               (\<exists>e1. videoStatusUrl p vid k = Inl e1 \<and>
                     taskStatusUrl p vid k = Inr (JString u))) \<longrightarrow>
              r = \<lparr>videoUrl = JString u, thumbnailUrl = str_replace u ''.mp4'' ''.jpg'',
                   videoId = vid\<rparr>"
  proof (intro allI impI)
    fix k vid u
    assume h: "HEYGEN_API_KEY p = Some k \<and> k \<noteq> [] \<and>
              submitVideo p k (getAvatarForHCP hcp) scr = Inr vid \<and>
              (videoStatusUrl p vid k = Inr (JString u) \<or>
               (\<exists>e1. videoStatusUrl p vid k = Inl e1 \<and>
                     taskStatusUrl p vid k = Inr (JString u)))"
    then have "checkVideoStatus p vid k = Inr (JString u)"
      using checkVideoStatus_answer [of p vid k "JString u"] by blast
    then have "generateVideo p scr hcp =
        Inr \<lparr>videoUrl = JString u, thumbnailUrl = str_replace u ''.mp4'' ''.jpg'',
             videoId = vid\<rparr>"
      using h generateVideo_status_string [of p k hcp scr vid u] by blast
    then show "r = \<lparr>videoUrl = JString u, thumbnailUrl = str_replace u ''.mp4'' ''.jpg'',
                   videoId = vid\<rparr>"
      using r by simp
  qed
  have e: "\<forall>k vid e1 e2.
              HEYGEN_API_KEY p = Some k \<and> k \<noteq> [] \<and>
              submitVideo p k (getAvatarForHCP hcp) scr = Inr vid \<and>
              videoStatusUrl p vid k = Inl e1 \<and> taskStatusUrl p vid k = Inl e2 \<longrightarrow>
              r = \<lparr>videoUrl = JString placeholderVideoUrl,
                   thumbnailUrl = placeholderThumbnailUrl, videoId = vid\<rparr>"
    using generateVideo_polling_failure [of p _ hcp scr] r by auto
  show "\<exists>r. generateVideo p scr hcp = Inr r
        \<and> (\<exists>u. videoUrl r = JString u \<and> u \<noteq> [])
        \<and> (HEYGEN_API_KEY p = None \<or> HEYGEN_API_KEY p = Some [] \<longrightarrow> r = placeholderResult)
        \<and> (\<forall>k e. HEYGEN_API_KEY p = Some k \<and>
                   submitVideo p k (getAvatarForHCP hcp) scr = Inl e \<longrightarrow>
                   r = placeholderResult)
        \<and> (\<forall>k vid url.
              HEYGEN_API_KEY p = Some k \<and> k \<noteq> [] \<and>
              submitVideo p k (getAvatarForHCP hcp) scr = Inr vid \<and>
              (videoStatusUrl p vid k = Inr url \<or>
               (\<exists>e1. videoStatusUrl p vid k = Inl e1 \<and> taskStatusUrl p vid k = Inr url)) \<and>
              (\<forall>u. url \<noteq> JString u) \<longrightarrow>
              r = placeholderResult)
        \<and> (\<forall>k vid u.
              HEYGEN_API_KEY p = Some k \<and> k \<noteq> [] \<and>
              submitVideo p k (getAvatarForHCP hcp) scr = Inr vid \<and>
              (videoStatusUrl p vid k = Inr (JString u) \<or>
               (\<exists>e1. videoStatusUrl p vid k = Inl e1 \<and>
                     taskStatusUrl p vid k = Inr (JString u))) \<longrightarrow>
              r = \<lparr>videoUrl = JString u, thumbnailUrl = str_replace u ''.mp4'' ''.jpg'',
                   videoId = vid\<rparr>)
        \<and> (\<forall>k vid e1 e2.
              HEYGEN_API_KEY p = Some k \<and> k \<noteq> [] \<and>
              submitVideo p k (getAvatarForHCP hcp) scr = Inr vid \<and>
              videoStatusUrl p vid k = Inl e1 \<and> taskStatusUrl p vid k = Inl e2 \<longrightarrow>
              r = \<lparr>videoUrl = JString placeholderVideoUrl,
                   thumbnailUrl = placeholderThumbnailUrl, videoId = vid\<rparr>)"
    using r u a b c d e by (intro exI [of _ r] conjI) assumption+
next
  obtain r where r: "veoGenerateVideo q scr hcp = Inr r"
    and u: "videoUrl r = JString placeholderVideoUrl"
      "thumbnailUrl r = placeholderThumbnailUrl"
    using veoGenerateVideo_returns by blast
  have a: "VEO_API_KEY q = None \<or> VEO_API_KEY q = Some [] \<longrightarrow> r = placeholderResult"
    using veoGenerateVideo_no_key [of q scr hcp] r by auto
  have b: "\<forall>k e. VEO_API_KEY q = Some k \<and>
                   post_veo q k scr (getSpeakerForHCP hcp) = Inl e \<longrightarrow>
                   r = placeholderResult"
    using veoGenerateVideo_rejected [of q _ scr hcp] r by auto
  have c: "\<forall>k body. VEO_API_KEY q = Some k \<and>
                   post_veo q k scr (getSpeakerForHCP hcp) = Inr body \<and>
                   (\<not> truthy body \<or> (\<exists>v. getProp body ''id'' = Inr v \<and> \<not> truthy v)) \<longrightarrow>
                   r = placeholderResult"
    using veoGenerateVideo_no_id [of q _ scr hcp] r by auto
  have d: "\<forall>k body vid. VEO_API_KEY q = Some k \<and> k \<noteq> [] \<and>
                   post_veo q k scr (getSpeakerForHCP hcp) = Inr body \<and> truthy body \<and>
                   getProp body ''id'' = Inr vid \<and> truthy vid \<longrightarrow>
                   videoId r = vid"
    using veoGenerateVideo_id [of q _ scr hcp] r by auto
  show "\<exists>r. veoGenerateVideo q scr hcp = Inr r
        \<and> videoUrl r = JString placeholderVideoUrl
        \<and> thumbnailUrl r = placeholderThumbnailUrl
        \<and> (VEO_API_KEY q = None \<or> VEO_API_KEY q = Some [] \<longrightarrow> r = placeholderResult)
        \<and> (\<forall>k e. VEO_API_KEY q = Some k \<and>
                   post_veo q k scr (getSpeakerForHCP hcp) = Inl e \<longrightarrow>
                   r = placeholderResult)
        \<and> (\<forall>k body. VEO_API_KEY q = Some k \<and>
                   post_veo q k scr (getSpeakerForHCP hcp) = Inr body \<and>
                   (\<not> truthy body \<or> (\<exists>v. getProp body ''id'' = Inr v \<and> \<not> truthy v)) \<longrightarrow>
                   r = placeholderResult)
        \<and> (\<forall>k body vid. VEO_API_KEY q = Some k \<and> k \<noteq> [] \<and>
                   post_veo q k scr (getSpeakerForHCP hcp) = Inr body \<and> truthy body \<and>
                   getProp body ''id'' = Inr vid \<and> truthy vid \<longrightarrow>
                   videoId r = vid)"
    using r u a b c d by (intro exI [of _ r] conjI) assumption+
next
  show "\<forall>h u d st' reply s t n.
         resolveInput st uid hcpText = (Inr (h, u, d), st') \<and>
         scriptService sv h prm d = Reply reply \<and>
         getProp reply ''script'' = Inr (JString s) \<and>
         getProp reply ''targetAudience'' = Inr (JString t) \<and>
         getProp reply ''duration'' = Inr (JNumber (of_int n)) \<longrightarrow>
         (\<exists>v st''. createVideo sv st uid prm hcpText = (Inr v, st'') \<and>
                    v \<in> set (videos st'') \<and>
                    (\<exists>url. video_url v = JString url \<and> url \<noteq> []))"
  proof (intro allI impI)
    fix h u d st' reply s t n
    assume "resolveInput st uid hcpText = (Inr (h, u, d), st') \<and>
         scriptService sv h prm d = Reply reply \<and>
         getProp reply ''script'' = Inr (JString s) \<and>
         getProp reply ''targetAudience'' = Inr (JString t) \<and>
         getProp reply ''duration'' = Inr (JNumber (of_int n))"
    then have "resolveInput st uid hcpText = (Inr (h, u, d), st')"
      and "scriptService sv h prm d = Reply reply"
      and "getProp reply ''script'' = Inr (JString s)"
      and "getProp reply ''targetAudience'' = Inr (JString t)"
      and "getProp reply ''duration'' = Inr (JNumber (of_int n))"
      by simp_all
    then show "\<exists>v st''. createVideo sv st uid prm hcpText = (Inr v, st'') \<and>
                    v \<in> set (videos st'') \<and>
                    (\<exists>url. video_url v = JString url \<and> url \<noteq> [])"
      by (rule createVideo_persists)
  qed
qed

text \<open>
  The HeyGen cases (no key, rejected submission, a status URL that is a number, a
  status URL that is a string, both status requests rejected), VEO without a key and with
  an id, and a run that stores a Video.
\<close>

theorem generateVideo_never_raises_witness:
  "HEYGEN_API_KEY noKeyProvider = None
   \<and> generateVideo noKeyProvider ''An evidence-based note.'' (JString ''Cardiologist'') =
       Inr placeholderResult
   \<and> submitVideo rejectingProvider ''key'' (getAvatarForHCP (JString ''Cardiologist''))
        ''An evidence-based note.'' = rejected
   \<and> generateVideo rejectingProvider ''An evidence-based note.'' (JString ''Cardiologist'') =
       Inr placeholderResult
   \<and> videoStatusUrl numericUrlProvider (JString ''job-42'') ''key'' = Inr (JNumber 5)
   \<and> generateVideo numericUrlProvider ''An evidence-based note.'' (JString ''Cardiologist'') =
       Inr placeholderResult
   \<and> videoStatusUrl workingProvider (JString ''job-42'') ''key'' =
       Inr (JString ''https://files.heygen.ai/job-42.mp4'')
   \<and> generateVideo workingProvider ''An evidence-based note.'' (JString ''Cardiologist'') =
       Inr \<lparr>videoUrl = JString ''https://files.heygen.ai/job-42.mp4'',
            thumbnailUrl = ''https://files.heygen.ai/job-42.jpg'',
            videoId = JString ''job-42''\<rparr>
   \<and> videoStatusUrl pollingFailureProvider (JString ''job-42'') ''key'' = rejected
   \<and> taskStatusUrl pollingFailureProvider (JString ''job-42'') ''key'' = rejected
   \<and> generateVideo pollingFailureProvider ''An evidence-based note.''
        (JString ''Cardiologist'') =
       Inr \<lparr>videoUrl = JString placeholderVideoUrl, thumbnailUrl = placeholderThumbnailUrl,
            videoId = JString ''job-42''\<rparr>
   \<and> veoGenerateVideo noKeyVeo ''An evidence-based note.'' (JString ''Cardiologist'') =
       Inr placeholderResult
   \<and> map_sum id videoId
        (veoGenerateVideo workingVeo ''An evidence-based note.'' (JString ''Cardiologist'')) =
       Inr (JString ''veo-7'')
   \<and> isl (fst (createVideo exampleServices emptyStorage None ''Explain the new therapy''
        None)) = False"
proof -
  let ?S = "''An evidence-based note.''" and ?H = "JString ''Cardiologist''"
  let ?P = "''Explain the new therapy''"
  let ?A = "getAvatarForHCP ?H"
  let ?st1 = "\<lparr>uploads = [\<lparr>user_id = ''anonymous'', hcp_text = defaultHcpText,
                     document_path = None, u_id = 1\<rparr>],
         videos = [], uploadSerial = 1, videoSerial = 0\<rparr>"
  let ?reply = "JObject
          [(''script'', JString ''An evidence-based note on heart failure.''),
           (''duration'', JNumber 8),
           (''targetAudience'', JString ''Cardiologist'')]"
  have k0: "HEYGEN_API_KEY noKeyProvider = None"
    by (simp add: noKeyProvider_def)
  have k1: "HEYGEN_API_KEY rejectingProvider = Some ''key''"
    by (simp add: rejectingProvider_def)
  have s1: "submitVideo rejectingProvider ''key'' ?A ?S = rejected"
    by (simp add: rejectingProvider_def noKeyProvider_def submitVideo_def submitV2_def
        submitV1_def andThen_def rejected_def)
  have k2: "HEYGEN_API_KEY pollingFailureProvider = Some ''key''"
    by (simp add: pollingFailureProvider_def rejectingProvider_def)
  have s2: "submitVideo pollingFailureProvider ''key'' ?A ?S = Inr (JString ''job-42'')"
    by (simp add: pollingFailureProvider_def submitVideo_def submitV2_def andThen_def)
  have v2: "videoStatusUrl pollingFailureProvider (JString ''job-42'') ''key'' = rejected"
    by (simp add: pollingFailureProvider_def rejectingProvider_def noKeyProvider_def
        videoStatusUrl_def andThen_def rejected_def)
  have t2: "taskStatusUrl pollingFailureProvider (JString ''job-42'') ''key'' = rejected"
    by (simp add: pollingFailureProvider_def rejectingProvider_def noKeyProvider_def
        taskStatusUrl_def andThen_def rejected_def)
  have k3: "HEYGEN_API_KEY numericUrlProvider = Some ''key''"
    by (simp add: numericUrlProvider_def pollingFailureProvider_def rejectingProvider_def)
  have s3: "submitVideo numericUrlProvider ''key'' ?A ?S = Inr (JString ''job-42'')"
    by (simp add: numericUrlProvider_def pollingFailureProvider_def submitVideo_def
        submitV2_def andThen_def)
  have v3: "videoStatusUrl numericUrlProvider (JString ''job-42'') ''key'' = Inr (JNumber 5)"
    by (simp add: numericUrlProvider_def videoStatusUrl_def andThen_def)
  have k4: "HEYGEN_API_KEY workingProvider = Some ''key''"
    by (simp add: workingProvider_def pollingFailureProvider_def rejectingProvider_def)
  have s4: "submitVideo workingProvider ''key'' ?A ?S = Inr (JString ''job-42'')"
    by (simp add: workingProvider_def pollingFailureProvider_def submitVideo_def
        submitV2_def andThen_def)
  have v4: "videoStatusUrl workingProvider (JString ''job-42'') ''key'' =
      Inr (JString ''https://files.heygen.ai/job-42.mp4'')"
    by (simp add: workingProvider_def videoStatusUrl_def andThen_def)
  have th4: "str_replace ''https://files.heygen.ai/job-42.mp4'' ''.mp4'' ''.jpg'' =
      ''https://files.heygen.ai/job-42.jpg''"
    by simp
  have q0: "VEO_API_KEY noKeyVeo = None"
    by (simp add: noKeyVeo_def)
  have q1: "VEO_API_KEY workingVeo = Some ''key''"
    and p1: "post_veo workingVeo ''key'' ?S (getSpeakerForHCP ?H) =
      Inr (JObject [(''id'', JString ''veo-7'')])"
    by (simp_all add: workingVeo_def)
  have r0: "resolveInput emptyStorage None None = (Inr (defaultHcpText, Some 1, None), ?st1)"
    by (simp add: resolveInput_def emptyStorage_def storage_createUpload_def Let_def)
  have c0: "scriptService exampleServices defaultHcpText ?P None = Reply ?reply"
    by (simp add: exampleServices_def)
  have f0: "getProp ?reply ''script'' = Inr (JString ''An evidence-based note on heart failure.'')"
    and f1: "getProp ?reply ''targetAudience'' = Inr (JString ''Cardiologist'')"
    and f2: "getProp ?reply ''duration'' = Inr (JNumber (of_int 8))"
    by simp_all
  note w0 = generateVideo_never_raises [where p = noKeyProvider and scr = ?S and hcp = ?H
      and q = noKeyVeo and st = emptyStorage and uid = None and hcpText = None
      and sv = exampleServices and prm = ?P]
  note w1 = generateVideo_never_raises [where p = rejectingProvider and scr = ?S and hcp = ?H
      and q = workingVeo and st = emptyStorage and uid = None and hcpText = None
      and sv = exampleServices and prm = ?P]
  note w2 = generateVideo_never_raises [where p = pollingFailureProvider and scr = ?S
      and hcp = ?H and q = noKeyVeo and st = emptyStorage and uid = None and hcpText = None
      and sv = exampleServices and prm = ?P]
  note w3 = generateVideo_never_raises [where p = numericUrlProvider and scr = ?S
      and hcp = ?H and q = noKeyVeo and st = emptyStorage and uid = None and hcpText = None
      and sv = exampleServices and prm = ?P]
  note w4 = generateVideo_never_raises [where p = workingProvider and scr = ?S
      and hcp = ?H and q = noKeyVeo and st = emptyStorage and uid = None and hcpText = None
      and sv = exampleServices and prm = ?P]
  have g0: "generateVideo noKeyProvider ?S ?H = Inr placeholderResult"
    using w0 [THEN conjunct1] k0 by auto
  have g1: "generateVideo rejectingProvider ?S ?H = Inr placeholderResult"
    using w1 [THEN conjunct1] k1 s1 by (auto simp add: rejected_def)
  have g2: "generateVideo pollingFailureProvider ?S ?H =
      Inr \<lparr>videoUrl = JString placeholderVideoUrl, thumbnailUrl = placeholderThumbnailUrl,
           videoId = JString ''job-42''\<rparr>"
    using w2 [THEN conjunct1] k2 s2 v2 t2 by (auto simp add: rejected_def)
  have g3: "generateVideo numericUrlProvider ?S ?H = Inr placeholderResult"
  proof -
    obtain r where r: "generateVideo numericUrlProvider ?S ?H = Inr r"
      and c: "\<forall>k vid url.
              HEYGEN_API_KEY numericUrlProvider = Some k \<and> k \<noteq> [] \<and>
              submitVideo numericUrlProvider k ?A ?S = Inr vid \<and>
              (videoStatusUrl numericUrlProvider vid k = Inr url \<or>
               (\<exists>e1. videoStatusUrl numericUrlProvider vid k = Inl e1 \<and>
                     taskStatusUrl numericUrlProvider vid k = Inr url)) \<and>
              (\<forall>u. url \<noteq> JString u) \<longrightarrow>
              r = placeholderResult"
      using w3 [THEN conjunct1] by (elim exE conjE) (rule that, assumption+)
    have "r = placeholderResult"
      using c [rule_format, of "''key''" "JString ''job-42''" "JNumber 5"] k3 s3 v3 by simp
    then show ?thesis using r by simp
  qed
  have g4: "generateVideo workingProvider ?S ?H =
      Inr \<lparr>videoUrl = JString ''https://files.heygen.ai/job-42.mp4'',
           thumbnailUrl = ''https://files.heygen.ai/job-42.jpg'',
           videoId = JString ''job-42''\<rparr>"
  proof -
    obtain r where r: "generateVideo workingProvider ?S ?H = Inr r"
      and d: "\<forall>k vid u.
              HEYGEN_API_KEY workingProvider = Some k \<and> k \<noteq> [] \<and>
              submitVideo workingProvider k ?A ?S = Inr vid \<and>
              (videoStatusUrl workingProvider vid k = Inr (JString u) \<or>
               (\<exists>e1. videoStatusUrl workingProvider vid k = Inl e1 \<and>
                     taskStatusUrl workingProvider vid k = Inr (JString u))) \<longrightarrow>
              r = \<lparr>videoUrl = JString u, thumbnailUrl = str_replace u ''.mp4'' ''.jpg'',
                   videoId = vid\<rparr>"
      using w4 [THEN conjunct1] by (elim exE conjE) (rule that, assumption+)
    have "r = \<lparr>videoUrl = JString ''https://files.heygen.ai/job-42.mp4'',
               thumbnailUrl = str_replace ''https://files.heygen.ai/job-42.mp4''
                 ''.mp4'' ''.jpg'',
               videoId = JString ''job-42''\<rparr>"
      using d [rule_format, of "''key''" "JString ''job-42''"
          "''https://files.heygen.ai/job-42.mp4''"] k4 s4 v4 by simp
    then show ?thesis using r th4 by simp
  qed
  have g5: "veoGenerateVideo noKeyVeo ?S ?H = Inr placeholderResult"
    using w0 [THEN conjunct2, THEN conjunct1] q0 by auto
  have g6: "map_sum id videoId (veoGenerateVideo workingVeo ?S ?H) = Inr (JString ''veo-7'')"
  proof -
    obtain r where r: "veoGenerateVideo workingVeo ?S ?H = Inr r"
      and d: "\<forall>k body vid. VEO_API_KEY workingVeo = Some k \<and> k \<noteq> [] \<and>
                   post_veo workingVeo k ?S (getSpeakerForHCP ?H) = Inr body \<and> truthy body \<and>
                   getProp body ''id'' = Inr vid \<and> truthy vid \<longrightarrow>
                   videoId r = vid"
      using w1 [THEN conjunct2, THEN conjunct1] by (elim exE conjE) (rule that, assumption+)
    have "videoId r = JString ''veo-7''"
      using d [rule_format, of "''key''" "JObject [(''id'', JString ''veo-7'')]"
          "JString ''veo-7''"] q1 p1 by simp
    then show ?thesis using r by simp
  qed
  have g7: "isl (fst (createVideo exampleServices emptyStorage None ?P None)) = False"
  proof -
    have "\<exists>v st''. createVideo exampleServices emptyStorage None ?P None = (Inr v, st'')"
      using w0 [THEN conjunct2, THEN conjunct2, rule_format,
          of defaultHcpText "Some 1" None ?st1 ?reply
            "''An evidence-based note on heart failure.''" "''Cardiologist''" 8]
        r0 c0 f0 f1 f2 by blast
    then show ?thesis by auto
  qed
  show ?thesis
    using k0 g0 s1 g1 v3 g3 v4 g4 v2 t2 g2 g5 g6 g7 by (intro conjI) assumption+
qed

text \<open>
  Against claim C5 as stated: the reply \<^verbatim>\<open>{}\<close> parses, \<^verbatim>\<open>generateScript\<close>
  returns it with its three fields \<^verbatim>\<open>undefined\<close>, and the run ends in the compliance
  step with a \<^verbatim>\<open>TypeError\<close>, not with the generic script-generation error.
\<close>

theorem createVideo_empty_reply_type_error:
  "scriptService emptyReplyServices ''Oncologist, prescription_rate: 0.5''
        ''Explain the new therapy'' None = Reply (JObject [])
   \<and> generateScript (scriptService emptyReplyServices) ''Oncologist, prescription_rate: 0.5''
        ''Explain the new therapy'' None =
       Inr \<lparr>script = JUndefined, duration_s = JUndefined, targetAudience = JUndefined\<rparr>
   \<and> fst (createVideo emptyReplyServices emptyStorage None ''Explain the new therapy''
        (Some ''Oncologist, prescription_rate: 0.5'')) = Inl TypeError
   \<and> fst (createVideo emptyReplyServices emptyStorage None ''Explain the new therapy''
        (Some ''Oncologist, prescription_rate: 0.5'')) \<noteq> Inl ScriptGenerationError"
  by code_simp

text \<open>
  Claim C5, amended. In every run that reaches the script generator (its input
  resolved): if the call to the language model is rejected, or its content does not
  parse, or parses to \<^verbatim>\<open>null\<close>, the run ends with the generic script-generation
  error; if the content parses to a value whose \<^verbatim>\<open>script\<close> is missing or is not a
  string, the run ends with the \<^verbatim>\<open>TypeError\<close> of the compliance step instead. In
  both cases no script is put in its place and the store holds the same videos as
  before; no run that ends in an error creates a Video.
\<close>

theorem createVideo_draft_failure:
  assumes "resolveInput st uid hcpText = (Inr (h, u, d), st')"
  shows "(scriptService sv h prm d = TransportError \<or> scriptService sv h prm d = ParseError \<or>
          scriptService sv h prm d = Reply JNull \<longrightarrow>
            createVideo sv st uid prm hcpText = (Inl ScriptGenerationError, st'))
       \<and> (\<forall>reply v. scriptService sv h prm d = Reply reply \<and>
             getProp reply ''script'' = Inr v \<and> (\<forall>s. v \<noteq> JString s) \<longrightarrow>
            createVideo sv st uid prm hcpText = (Inl TypeError, st'))
       \<and> videos st' = videos st
       \<and> (\<forall>e st''. createVideo sv st uid prm hcpText = (Inl e, st'') \<longrightarrow>
            videos st'' = videos st)"
proof (intro conjI)
  show "scriptService sv h prm d = TransportError \<or> scriptService sv h prm d = ParseError \<or>
          scriptService sv h prm d = Reply JNull \<longrightarrow>
            createVideo sv st uid prm hcpText = (Inl ScriptGenerationError, st')"
  proof
    assume "scriptService sv h prm d = TransportError \<or>
        scriptService sv h prm d = ParseError \<or> scriptService sv h prm d = Reply JNull"
    then have "generateScript (scriptService sv) h prm d = Inl ScriptGenerationError"
      using generateScript_failure [of "scriptService sv" h prm d] by blast
    then show "createVideo sv st uid prm hcpText = (Inl ScriptGenerationError, st')"
      using assms by (simp add: createVideo_def produceVideo_def analyzeHCP_def)
  qed
next
  show "\<forall>reply v. scriptService sv h prm d = Reply reply \<and>
             getProp reply ''script'' = Inr v \<and> (\<forall>s. v \<noteq> JString s) \<longrightarrow>
            createVideo sv st uid prm hcpText = (Inl TypeError, st')"
  proof (intro allI impI)
    fix reply v
    assume a: "scriptService sv h prm d = Reply reply \<and>
             getProp reply ''script'' = Inr v \<and> (\<forall>s. v \<noteq> JString s)"
    then obtain secs t where
      g: "generateScript (scriptService sv) h prm d =
            Inr \<lparr>script = v, duration_s = secs, targetAudience = t\<rparr>"
      using generateScript_reply [of "scriptService sv" h prm d reply v] by blast
    have e: "evaluateComplianceValue (checkCompliance (complianceService sv)) v = Inl TypeError"
      using a by (cases v) (simp_all add: evaluateComplianceValue_def)
    show "createVideo sv st uid prm hcpText = (Inl TypeError, st')"
      using assms g e by (simp add: createVideo_def produceVideo_def analyzeHCP_def)
  qed
next
  show "videos st' = videos st"
    using resolveInput_videos [OF assms] .
next
  show "\<forall>e st''. createVideo sv st uid prm hcpText = (Inl e, st'') \<longrightarrow> videos st'' = videos st"
    using createVideo_failure_no_video by blast
qed

text \<open>
  Two runs on an empty store: one whose script reply does not parse, one whose reply is
  \<^verbatim>\<open>{}\<close>.
\<close>

theorem createVideo_draft_failure_witness:
  "resolveInput emptyStorage None (Some ''Oncologist, prescription_rate: 0.5'') =
     (Inr (''Oncologist, prescription_rate: 0.5'', Some 1, None),
      \<lparr>uploads = [\<lparr>user_id = ''anonymous'', hcp_text = ''Oncologist, prescription_rate: 0.5'',
                   document_path = None, u_id = 1\<rparr>],
       videos = [], uploadSerial = 1, videoSerial = 0\<rparr>)
   \<and> scriptService failingScriptServices ''Oncologist, prescription_rate: 0.5''
        ''Explain the new therapy'' None = ParseError
   \<and> fst (createVideo failingScriptServices emptyStorage None ''Explain the new therapy''
        (Some ''Oncologist, prescription_rate: 0.5'')) = Inl ScriptGenerationError
   \<and> videos (snd (createVideo failingScriptServices emptyStorage None
        ''Explain the new therapy'' (Some ''Oncologist, prescription_rate: 0.5''))) = []
   \<and> scriptService emptyReplyServices ''Oncologist, prescription_rate: 0.5''
        ''Explain the new therapy'' None = Reply (JObject [])
   \<and> getProp (JObject []) ''script'' = Inr JUndefined
   \<and> fst (createVideo emptyReplyServices emptyStorage None ''Explain the new therapy''
        (Some ''Oncologist, prescription_rate: 0.5'')) = Inl TypeError
   \<and> videos (snd (createVideo emptyReplyServices emptyStorage None
        ''Explain the new therapy'' (Some ''Oncologist, prescription_rate: 0.5''))) = []"
proof -
  let ?T = "''Oncologist, prescription_rate: 0.5''" and ?P = "''Explain the new therapy''"
  let ?st1 = "\<lparr>uploads = [\<lparr>user_id = ''anonymous'', hcp_text = ?T,
                   document_path = None, u_id = 1\<rparr>],
       videos = [], uploadSerial = 1, videoSerial = 0\<rparr>"
  have a: "resolveInput emptyStorage None (Some ?T) = (Inr (?T, Some 1, None), ?st1)"
    by code_simp
  have b: "scriptService failingScriptServices ?T ?P None = ParseError"
    by (simp add: failingScriptServices_def)
  have c: "scriptService emptyReplyServices ?T ?P None = Reply (JObject [])"
    by (simp add: emptyReplyServices_def)
  have g: "getProp (JObject []) ''script'' = Inr JUndefined"
    by simp
  note w1 = createVideo_draft_failure [OF a, of failingScriptServices ?P]
  note w2 = createVideo_draft_failure [OF a, of emptyReplyServices ?P]
  have f1: "createVideo failingScriptServices emptyStorage None ?P (Some ?T) =
      (Inl ScriptGenerationError, ?st1)"
    using w1 [THEN conjunct1] b by simp
  have f2: "createVideo emptyReplyServices emptyStorage None ?P (Some ?T) =
      (Inl TypeError, ?st1)"
    using w2 [THEN conjunct2, THEN conjunct1, rule_format, of "JObject []" JUndefined] c g
    by simp
  show ?thesis
    using a b c g by (simp add: f1 f2)
qed

text \<open>
  Claim C6 asks that a run without an upload identifier and with an HCP text that is
  absent or empty after trimming creates an Upload for the default profile, to which the
  Video refers. On the text of three spaces the default profile is substituted, but no
  Upload is created and the Video has \<^verbatim>\<open>upload_id\<close> 0; on an absent text Upload 1 is
  created for the default profile and the Video refers to it.
\<close>

theorem createVideo_blank_hcpText_no_upload:
  "trim ''   '' = []
   \<and> resolveInput emptyStorage None (Some ''   '') =
       (Inr (defaultHcpText, None, None), emptyStorage)
   \<and> map_sum id upload_id
       (fst (createVideo exampleServices emptyStorage None ''Explain the new therapy''
          (Some ''   ''))) = Inr 0
   \<and> uploads (snd (createVideo exampleServices emptyStorage None ''Explain the new therapy''
          (Some ''   ''))) = []
   \<and> map_sum id upload_id
       (fst (createVideo exampleServices emptyStorage None ''Explain the new therapy''
          None)) = Inr 1
   \<and> map u_id
       (uploads (snd (createVideo exampleServices emptyStorage None ''Explain the new therapy''
          None))) = [1]
   \<and> map hcp_text
       (uploads (snd (createVideo exampleServices emptyStorage None ''Explain the new therapy''
          None))) = [defaultHcpText]"
  by code_simp

subsection \<open>Compliance statistics\<close>

lemma foldl_duration:
  "foldl (\<lambda>sum video. sum + duration video) a vs = a + sum_list (map duration vs)"
  by (induction vs arbitrary: a) simp_all

lemma Math_round_nearest: "\<bar>of_int (Math_round x) - x\<bar> \<le> 1/2"
proof -
  have "of_int \<lfloor>x + 1/2\<rfloor> \<le> x + 1/2" and "x + 1/2 < of_int \<lfloor>x + 1/2\<rfloor> + 1"
    by linarith+
  then show ?thesis unfolding Math_round_def by linarith
qed

lemma toFixed1_nearest: "\<bar>toFixed1 x - x\<bar> \<le> 1/20"
proof (cases "x < 0")
  case True
  define k where "k = \<lfloor>10 * (- x) + 1/2\<rfloor>"
  have "of_int k \<le> 10 * (- x) + 1/2" and "10 * (- x) + 1/2 < of_int k + 1"
    unfolding k_def by linarith+
  moreover have "toFixed1 x = - (of_int k / 10)"
    using True by (simp add: toFixed1_def k_def)
  ultimately show ?thesis by linarith
next
  case False
  define k where "k = \<lfloor>10 * x + 1/2\<rfloor>"
  have "of_int k \<le> 10 * x + 1/2" and "10 * x + 1/2 < of_int k + 1"
    unfolding k_def by linarith+
  moreover have "toFixed1 x = of_int k / 10"
    using False by (simp add: toFixed1_def k_def)
  ultimately show ?thesis by linarith
qed

lemma toFixed1_tenths: "\<exists>k::int. toFixed1 x = of_int k / 10"
proof (cases "x < 0")
  case True
  then have "toFixed1 x = of_int (- \<lfloor>10 * (- x) + 1/2\<rfloor>) / 10"
    by (simp add: toFixed1_def)
  then show ?thesis by blast
next
  case False
  then have "toFixed1 x = of_int \<lfloor>10 * x + 1/2\<rfloor> / 10"
    by (simp add: toFixed1_def)
  then show ?thesis by blast
qed

text \<open>
  Against claim C8 as stated: on the empty store the statistics are not the aggregate of
  the rows. There is no row, and the result reports 127 videos generated, 121 passed, a
  compliance rate of 95 and an average duration of 8.5.
\<close>

theorem getComplianceStats_empty_defaults:
  "length (videos emptyStorage) = 0
   \<and> videos_generated (getComplianceStats emptyStorage) \<noteq> length (videos emptyStorage)
   \<and> videos_generated (getComplianceStats emptyStorage) = 127
   \<and> videos_passed (getComplianceStats emptyStorage) = 121
   \<and> compliance_rate (getComplianceStats emptyStorage) = 95
   \<and> avg_duration (getComplianceStats emptyStorage) = 85/10"
  by (simp add: emptyStorage_def getComplianceStats_def storage_listVideos_def)

text \<open>
  Claim C8, amended. On the empty store the result is the fixed figures 95, 127, 121 and
  8.5. On a store with at least one video, \<^verbatim>\<open>videos_generated\<close> is the number of rows,
  \<^verbatim>\<open>videos_passed\<close> is the number of Passed rows when there is one,
  \<^verbatim>\<open>compliance_rate\<close> is the percentage of Passed rows rounded to an integer (within
  1/2 of it) and \<^verbatim>\<open>avg_duration\<close> is the mean duration rounded to one decimal
  (a number of tenths within 1/20 of it). Counts of the Review and Failed rows are not
  part of the result.
\<close>

theorem getComplianceStats_aggregate:
  "(videos st = [] \<longrightarrow>
      compliance_rate (getComplianceStats st) = 95 \<and>
      videos_generated (getComplianceStats st) = 127 \<and>
      videos_passed (getComplianceStats st) = 121 \<and>
      avg_duration (getComplianceStats st) = 85/10)
   \<and> (videos st \<noteq> [] \<longrightarrow>
      videos_generated (getComplianceStats st) = length (videos st) \<and>
      (filter (\<lambda>v. compliance_status v = Passed) (videos st) \<noteq> [] \<longrightarrow>
         videos_passed (getComplianceStats st) =
           length (filter (\<lambda>v. compliance_status v = Passed) (videos st))) \<and>
      \<bar>of_int (compliance_rate (getComplianceStats st))
         - 100 * of_nat (length (filter (\<lambda>v. compliance_status v = Passed) (videos st)))
             / of_nat (length (videos st))\<bar> \<le> (1/2 :: rat) \<and>
      \<bar>avg_duration (getComplianceStats st)
         - of_int (sum_list (map duration (videos st))) / of_nat (length (videos st))\<bar>
        \<le> 1/20 \<and>
      (\<exists>k::int. avg_duration (getComplianceStats st) = of_int k / 10))"
proof (cases "videos st = []")
  case True
  then show ?thesis
    by (simp add: getComplianceStats_def storage_listVideos_def)
next
  case False
  let ?p = "length (filter (\<lambda>v. compliance_status v = Passed) (videos st))"
  let ?n = "length (videos st)"
  have n: "?n > 0" using False by simp
  have rate: "compliance_rate (getComplianceStats st)
      = Math_round ((of_nat ?p / of_nat ?n) * 100)"
    using n by (simp add: getComplianceStats_def storage_listVideos_def Let_def)
  have avg: "avg_duration (getComplianceStats st)
      = toFixed1 (of_int (sum_list (map duration (videos st))) / of_nat ?n)"
    using n by (simp add: getComplianceStats_def storage_listVideos_def Let_def foldl_duration)
  have gen: "videos_generated (getComplianceStats st) = ?n"
    using n by (simp add: getComplianceStats_def storage_listVideos_def Let_def)
  have pas: "?p \<noteq> 0 \<longrightarrow> videos_passed (getComplianceStats st) = ?p"
    by (simp add: getComplianceStats_def storage_listVideos_def Let_def)
  have r: "\<bar>of_int (compliance_rate (getComplianceStats st)) - 100 * of_nat ?p / of_nat ?n\<bar>
      \<le> (1/2 :: rat)"
  proof -
    have "(of_nat ?p / of_nat ?n) * 100 = 100 * of_nat ?p / (of_nat ?n :: rat)"
      by simp
    then show ?thesis
      using Math_round_nearest [of "(of_nat ?p / of_nat ?n) * 100"] by (simp only: rate)
  qed
  have a: "\<bar>avg_duration (getComplianceStats st)
      - of_int (sum_list (map duration (videos st))) / of_nat ?n\<bar> \<le> 1/20"
    using toFixed1_nearest by (simp add: avg)
  have t: "\<exists>k::int. avg_duration (getComplianceStats st) = of_int k / 10"
    using toFixed1_tenths by (simp add: avg)
  show ?thesis using False gen pas r a t by simp
qed

text \<open>
  The empty store, and a store of three videos of which two passed: 3 generated, 2
  passed, a rate of 67 and an average duration of 8.3.
\<close>

theorem getComplianceStats_aggregate_witness:
  "videos emptyStorage = []
   \<and> compliance_rate (getComplianceStats emptyStorage) = 95
   \<and> videos exampleStorage \<noteq> []
   \<and> filter (\<lambda>v. compliance_status v = Passed) (videos exampleStorage) \<noteq> []
   \<and> videos_generated (getComplianceStats exampleStorage) = 3
   \<and> videos_passed (getComplianceStats exampleStorage) = 2
   \<and> compliance_rate (getComplianceStats exampleStorage) = 67
   \<and> avg_duration (getComplianceStats exampleStorage) = 83/10"
proof -
  have e: "videos emptyStorage = []" by (simp add: emptyStorage_def)
  have v: "videos exampleStorage =
      [exampleVideo 3 Passed 8, exampleVideo 2 Review 9, exampleVideo 1 Passed 8]"
    by (simp add: exampleStorage_def)
  have f: "filter (\<lambda>v. compliance_status v = Passed) (videos exampleStorage) =
      [exampleVideo 3 Passed 8, exampleVideo 1 Passed 8]"
    by (simp add: v exampleVideo_def)
  have s: "sum_list (map duration (videos exampleStorage)) = 25"
    by (simp add: v exampleVideo_def)
  have n: "length (videos exampleStorage) = 3"
    by (simp add: v)
  have ne: "videos exampleStorage \<noteq> []"
    by (simp add: v)
  note w = getComplianceStats_aggregate [of exampleStorage]
  have g: "videos_generated (getComplianceStats exampleStorage) = 3"
    and p: "videos_passed (getComplianceStats exampleStorage) = 2"
    and r: "\<bar>of_int (compliance_rate (getComplianceStats exampleStorage)) - 200 / 3\<bar>
        \<le> (1/2 :: rat)"
    and a: "\<bar>avg_duration (getComplianceStats exampleStorage) - 25 / 3\<bar> \<le> 1/20"
    and t: "\<exists>k::int. avg_duration (getComplianceStats exampleStorage) = of_int k / 10"
    using w ne by (simp_all add: f s n)
  have r67: "compliance_rate (getComplianceStats exampleStorage) = 67"
    using r by linarith
  obtain k :: int where k: "avg_duration (getComplianceStats exampleStorage) = of_int k / 10"
    using t by blast
  have "(of_int k :: rat) > 82" and "(of_int k :: rat) < 84"
    using a k by linarith+
  then have "k > 82" and "k < 84" by linarith+
  then have "k = 83" by linarith
  then have a83: "avg_duration (getComplianceStats exampleStorage) = 83/10"
    using k by simp
  show ?thesis
    using getComplianceStats_aggregate [of emptyStorage] e g p r67 a83
    by (simp add: f) (simp add: v)
qed

end
